theory Spec2Isabelle
  imports Main "HOL-Library.AList"
begin

section \<open>Python values used by the interview engine\<close>

text \<open>
  The engine works on dictionaries. A dictionary whose keys the code tests for presence
  is a record of optional fields (\<open>None\<close>: the key is absent); a dictionary that is only
  filled and read by key is an association list in insertion order, updated with
  \<open>AList.update\<close> (replace in place, else append) and read with \<open>map_of\<close>.
  Exceptions are values of \<open>error\<close>.

  A Python string is a sequence of code points. The texts that the engine only passes on
  or compares as a whole (ids, questions, responses, prompts) are of type \<open>string\<close>, one
  code point below 256 per character. The answer of the next-question chain, which the
  engine cleans of white space, is a list of code points of any size (\<open>unicode\<close>);
  \<open>codes\<close> gives the code points of a \<open>string\<close>.
\<close>

type_synonym unicode = "nat list"

definition codes :: "string \<Rightarrow> unicode" where
  "codes s = map of_char s"

datatype error =
    ValueError string
  | KeyError string
  | IndexError
  | TypeError
  | OracleFailure

datatype pyval = PyInt int | PyStr string

text \<open>
  The messages of a conversation. The constructor \<open>AIMessage\<close> of the library refuses the
  content \<open>None\<close> with a validation error, so the engine never builds \<open>AIMessage None\<close>.
\<close>

datatype message = SystemMessage string | AIMessage "string option" | HumanMessage string

text \<open>A question of a traditional scenario: the keys \<open>id\<close> and \<open>question\<close>.\<close>

record question =
  q_id :: string
  q_question :: string

text \<open>One stage of a conversation flow; \<open>agent_goals\<close> may be absent.\<close>

record stage_data =
  agent_goals :: "string list option"

text \<open>
  A scenario dictionary, traditional or staged. The presence of \<open>context\<close>,
  \<open>customer_profile\<close> and \<open>conversation_flow\<close> decides the format; the flow keeps its
  declared order.
\<close>

record scenario =
  sc_id :: "string option"
  title :: "string option"
  description :: "string option"
  questions :: "question list option"
  scenario_context :: "(string \<times> string) list option"
  customer_profile :: "(string \<times> string) list option"
  conversation_flow :: "(string \<times> stage_data) list option"

record evaluation_entry =
  ev_question :: string
  ev_response :: string
  ev_analysis :: "(string \<times> pyval) list"

text \<open>The session dictionary of \<open>conversation.py\<close>.\<close>

record session =
  scenario :: "scenario option"
  current_question_index :: "int option"
  questions_asked :: "string list option"
  conversation_history :: "message list option"
  evaluation :: "(string \<times> evaluation_entry) list option"
  current_question :: "question option"
  awaiting_clarification :: "bool option"
  interview_complete :: "bool option"

text \<open>\<open>not session\<close>: the dictionary has no key.\<close>

definition session_is_empty :: "session \<Rightarrow> bool" where
  "session_is_empty s \<longleftrightarrow>
     scenario s = None \<and> current_question_index s = None \<and> questions_asked s = None \<and>
     conversation_history s = None \<and> evaluation s = None \<and> current_question s = None \<and>
     awaiting_clarification s = None \<and> interview_complete s = None"

section \<open>The scoring oracle\<close>

text \<open>
  The three chains of \<open>conversation.py\<close> call the language model and parse its answer.
  Each is a function of the prompt variables; \<open>None\<close> stands for a call that raised
  (the model failed, or its output could not be parsed).
\<close>

record clarification_response =
  needs_clarification :: bool
  clarification_question :: "string option"
  reasoning :: string

record response_analysis =
  relevance_score :: int
  completeness_score :: int
  clarity_score :: int
  technical_accuracy_score :: int
  professional_tone_score :: int
  analysis_reasoning :: string

record oracles =
  clarification_chain :: "string \<Rightarrow> string \<Rightarrow> clarification_response option"
  analysis_chain :: "string \<Rightarrow> string \<Rightarrow> response_analysis option"
  next_question_chain :: "string \<Rightarrow> string \<Rightarrow> string \<Rightarrow> string \<Rightarrow> unicode option"

text \<open>The calls made to the oracle, in order, with their prompt variables.\<close>

datatype oracle_call =
    ClarificationCall string string
  | AnalysisCall string string
  | NextQuestionCall string string string string

text \<open>\<open>analysis_result.dict()\<close>: the six fields of \<open>ResponseAnalysis\<close>.\<close>

definition analysis_dict :: "response_analysis \<Rightarrow> (string \<times> pyval) list" where
  "analysis_dict a =
     [(''relevance_score'', PyInt (relevance_score a)),
      (''completeness_score'', PyInt (completeness_score a)),
      (''clarity_score'', PyInt (clarity_score a)),
      (''technical_accuracy_score'', PyInt (technical_accuracy_score a)),
      (''professional_tone_score'', PyInt (professional_tone_score a)),
      (''reasoning'', PyStr (analysis_reasoning a))]"

text \<open>The default analysis stored when the analysis chain raises.\<close>

definition default_analysis :: "(string \<times> pyval) list" where
  "default_analysis =
     [(''relevance_score'', PyInt 5),
      (''completeness_score'', PyInt 5),
      (''clarity_score'', PyInt 5),
      (''technical_accuracy_score'', PyInt 5),
      (''professional_tone_score'', PyInt 5),
      (''reasoning'', PyStr ''Analysis failed due to an error.'')]"

section \<open>Strings\<close>

text \<open>
  \<open>str.strip()\<close> removes the white space of \<open>str.isspace\<close> at both ends: the code points
  U+0009 to U+000D, U+001C to U+0020, U+0085, U+00A0, U+1680, U+2000 to U+200A, U+2028,
  U+2029, U+202F, U+205F and U+3000.
\<close>

definition py_isspace :: "nat \<Rightarrow> bool" where
  "py_isspace c \<longleftrightarrow>
     (9 \<le> c \<and> c \<le> 13) \<or> (28 \<le> c \<and> c \<le> 32) \<or> c = 133 \<or> c = 160 \<or> c = 5760 \<or>
     (8192 \<le> c \<and> c \<le> 8202) \<or> c = 8232 \<or> c = 8233 \<or> c = 8239 \<or> c = 8287 \<or> c = 12288"

definition strip :: "unicode \<Rightarrow> unicode" where
  "strip s = rev (dropWhile py_isspace (rev (dropWhile py_isspace s)))"

text \<open>\<open>s.replace(old, new)\<close> for a non-empty \<open>old\<close>: every occurrence, left to right.\<close>

fun py_replace :: "'a list \<Rightarrow> 'a list \<Rightarrow> 'a list \<Rightarrow> 'a list" where
  "py_replace old new [] = []"
| "py_replace old new (c # cs) =
     (if old \<noteq> [] \<and> take (length old) (c # cs) = old
      then new @ py_replace old new (drop (length old - 1) cs)
      else c # py_replace old new cs)"

text \<open>\<open>s.split(",")[0]\<close>: the text before the first comma (U+002C).\<close>

definition before_comma :: "unicode \<Rightarrow> unicode" where
  "before_comma s = takeWhile (\<lambda>c. c \<noteq> 44) s"

text \<open>\<open>"\n".join(xs)\<close>\<close>

fun join_lines :: "string list \<Rightarrow> string" where
  "join_lines [] = []"
| "join_lines [x] = x"
| "join_lines (x # y # ys) = x @ [CHR 0x0A] @ join_lines (y # ys)"

text \<open>
  The clean-up of the identifier returned by the next-question chain:
  \<open>next_question_id.strip().replace("ID: ", "").split(",")[0].strip()\<close>.
\<close>

definition clean_question_id :: "unicode \<Rightarrow> unicode" where
  "clean_question_id raw = strip (before_comma (py_replace (codes ''ID: '') [] (strip raw)))"

text \<open>
  The clean-up as the specification words it: white space at the ends, a leading
  \<open>ID:\<close> prefix and the text from the first comma on are removed.
\<close>

definition stated_question_id :: "unicode \<Rightarrow> unicode" where
  "stated_question_id raw =
     (let s = strip raw;
          s' = (if take 4 s = codes ''ID: '' then drop 4 s else s)
      in strip (before_comma s'))"

section \<open>Selecting the next question\<close>

text \<open>The questions of the scenario not yet asked, in scenario order.\<close>

definition available_questions :: "question list \<Rightarrow> string list \<Rightarrow> question list" where
  "available_questions qs asked = filter (\<lambda>q. q_id q \<notin> set asked) qs"

text \<open>
  The loop that looks the selected identifier up among the available questions:
  \<open>q["id"] == next_question_id\<close> compares the two strings code point by code point.
\<close>

fun find_question :: "unicode \<Rightarrow> question list \<Rightarrow> question option" where
  "find_question i [] = None"
| "find_question i (q # qs) = (if codes (q_id q) = i then Some q else find_question i qs)"

definition available_questions_text :: "question list \<Rightarrow> string" where
  "available_questions_text qs =
     join_lines (map (\<lambda>q. ''ID: '' @ q_id q @ '', Question: '' @ q_question q) qs)"

text \<open>\<open>msg.content\<close> inside an f-string: \<open>None\<close> prints as \<open>None\<close>.\<close>

fun history_line :: "message \<Rightarrow> string" where
  "history_line (AIMessage (Some c)) = ''Interviewer: '' @ c"
| "history_line (AIMessage None) = ''Interviewer: None''"
| "history_line (HumanMessage c) = ''Candidate: '' @ c"
| "history_line (SystemMessage c) = ''Candidate: '' @ c"

fun is_system :: "message \<Rightarrow> bool" where
  "is_system (SystemMessage c) = True"
| "is_system m = False"

definition conversation_history_text :: "message list \<Rightarrow> string" where
  "conversation_history_text h = join_lines (map history_line (filter (\<lambda>m. \<not> is_system m) h))"

definition next_question_call :: "scenario \<Rightarrow> question list \<Rightarrow> message list \<Rightarrow> oracle_call" where
  "next_question_call sc available h =
     NextQuestionCall
       (case title sc of Some t \<Rightarrow> t | None \<Rightarrow> ''Unknown Scenario'')
       (case description sc of Some d \<Rightarrow> d | None \<Rightarrow> ''No description available'')
       (available_questions_text available)
       (conversation_history_text h)"

fun ask_oracle_next :: "oracles \<Rightarrow> oracle_call \<Rightarrow> unicode option" where
  "ask_oracle_next orc (NextQuestionCall t d a h) = next_question_chain orc t d a h"
| "ask_oracle_next orc c = None"

text \<open>
  \<open>select_next_question\<close>. The result is the selected question (\<open>None\<close>: no question)
  and the oracle calls made. Every exception is caught inside the function:
  a missing \<open>scenario\<close>, \<open>questions_asked\<close> or \<open>questions\<close> raises \<open>ValueError\<close>, which the
  outer handler turns into \<open>None\<close>; a missing \<open>conversation_history\<close> or a failing chain
  is caught by the handler of the second block, which falls back to the first
  available question. Questions always carry both of their keys, so the \<open>KeyError\<close>
  handler of the first block is never entered.
\<close>

definition select_next_question :: "oracles \<Rightarrow> session \<Rightarrow> question option \<times> oracle_call list" where
  "select_next_question orc s =
     (if session_is_empty s then (None, [])
      else case scenario s of
        None \<Rightarrow> (None, [])
      | Some sc \<Rightarrow>
        (case questions_asked s of
          None \<Rightarrow> (None, [])
        | Some asked \<Rightarrow>
          (case questions sc of
            None \<Rightarrow> (None, [])
          | Some qs \<Rightarrow>
            (case available_questions qs asked of
              [] \<Rightarrow> (None, [])
            | [q] \<Rightarrow> (Some q, [])
            | q # q' # rest \<Rightarrow>
              (case conversation_history s of
                None \<Rightarrow> (Some q, [])
              | Some h \<Rightarrow>
                (let call = next_question_call sc (q # q' # rest) h in
                 case ask_oracle_next orc call of
                   None \<Rightarrow> (Some q, [call])
                 | Some raw \<Rightarrow>
                   (case find_question (clean_question_id raw) (q # q' # rest) of
                      Some sel \<Rightarrow> (Some sel, [call])
                    | None \<Rightarrow> (Some q, [call]))))))))"

section \<open>Processing a response\<close>

definition closing_message :: message where
  "closing_message =
     AIMessage (Some ''Thank you for completing this technical interview. We'll now evaluate your responses.'')"

text \<open>
  \<open>session["conversation_history"].append(m)\<close>. \<open>process_response\<close> reads the key before
  it reaches any use of this function, so the key is present wherever it is applied.
\<close>

definition append_history :: "message \<Rightarrow> session \<Rightarrow> session" where
  "append_history m s =
     (case conversation_history s of
        None \<Rightarrow> s
      | Some h \<Rightarrow> s\<lparr>conversation_history := Some (h @ [m])\<rparr>)"

text \<open>Marking the interview complete and appending the closing message.\<close>

definition mark_complete :: "session \<Rightarrow> session" where
  "mark_complete s = append_history closing_message (s\<lparr>interview_complete := Some True\<rparr>)"

text \<open>
  The completion check: \<open>len(session["questions_asked"]) >= len(session["scenario"]["questions"])\<close>.
  \<open>None\<close> is the \<open>KeyError\<close> of a missing key, which the caller catches and ignores.
\<close>

definition all_questions_asked :: "session \<Rightarrow> bool option" where
  "all_questions_asked s =
     (case questions_asked s of
        None \<Rightarrow> None
      | Some asked \<Rightarrow>
        (case scenario s of
           None \<Rightarrow> None
         | Some sc \<Rightarrow>
           (case questions sc of
              None \<Rightarrow> None
            | Some qs \<Rightarrow> Some (length asked \<ge> length qs))))"

text \<open>
  The last block of \<open>process_response\<close>: select the next question and ask it, or
  complete the interview when there is none. If appending to \<open>questions_asked\<close> raised,
  the handler of the block would complete the interview as well.
\<close>

definition advance :: "oracles \<Rightarrow> session \<Rightarrow> session \<times> oracle_call list" where
  "advance orc s =
     (case select_next_question orc s of
        (Some next_question, calls) \<Rightarrow>
          (case questions_asked s of
             Some asked \<Rightarrow>
               (append_history (AIMessage (Some (q_question next_question)))
                  (s\<lparr>current_question := Some next_question,
                     questions_asked := Some (asked @ [q_id next_question])\<rparr>),
                calls)
           | None \<Rightarrow> (mark_complete (s\<lparr>current_question := Some next_question\<rparr>), calls))
      | (None, calls) \<Rightarrow> (mark_complete s, calls))"

text \<open>The completion check followed by the selection of the next question.\<close>

definition check_complete_or_advance :: "oracles \<Rightarrow> session \<Rightarrow> session \<times> oracle_call list" where
  "check_complete_or_advance orc s =
     (case all_questions_asked s of
        Some True \<Rightarrow> (mark_complete s, [])
      | Some False \<Rightarrow> advance orc s
      | None \<Rightarrow> advance orc s)"

text \<open>
  The analysis of the response to question \<open>cq\<close>. The entry is stored under the id of
  the current question, from the chain's result or, when the chain raises, from the
  default analysis. A session without the key \<open>evaluation\<close> raises \<open>KeyError\<close> in the
  block and again in its handler, and the exception leaves the block.
\<close>

definition analyze_response ::
  "oracles \<Rightarrow> session \<Rightarrow> question \<Rightarrow> string \<Rightarrow> (error + session) \<times> oracle_call list" where
  "analyze_response orc s cq response =
     (let analysis =
            (case analysis_chain orc (q_question cq) response of
               Some analysis_result \<Rightarrow> analysis_dict analysis_result
             | None \<Rightarrow> default_analysis);
          entry = \<lparr>ev_question = q_question cq, ev_response = response, ev_analysis = analysis\<rparr>
      in (case evaluation s of
            None \<Rightarrow> Inl (KeyError ''evaluation'')
          | Some ev \<Rightarrow> Inr (s\<lparr>evaluation := Some (AList.update (q_id cq) entry ev)\<rparr>),
          [AnalysisCall (q_question cq) response]))"

text \<open>
  The body of the outermost \<open>try\<close> of \<open>process_response\<close>. \<open>Inl (e, s, calls)\<close>: the
  exception \<open>e\<close> left the body when the session, changed in place, was \<open>s\<close>.
  \<open>Inr (s, calls)\<close>: the body returned \<open>s\<close>. The handler of the clarification block catches
  a failing chain, and also the validation error that \<open>AIMessage(content=None)\<close> raises when
  the chain asks for a clarification without a clarification question (the field defaults
  to \<open>None\<close>); in both cases nothing has been appended and the analysis goes on.
\<close>

definition process_response_try ::
  "oracles \<Rightarrow> session \<Rightarrow> string \<Rightarrow>
     (error \<times> session \<times> oracle_call list) + (session \<times> oracle_call list)" where
  "process_response_try orc session response =
     (if session_is_empty session then Inl (ValueError ''Empty session provided'', session, [])
      else case current_question session of
        None \<Rightarrow> Inl (ValueError ''Invalid session format: missing current_question'', session, [])
      | Some cq \<Rightarrow>
        (case conversation_history session of
          None \<Rightarrow> Inl (KeyError ''conversation_history'', session, [])
        | Some h \<Rightarrow>
          (let s1 = session\<lparr>conversation_history := Some (h @ [HumanMessage response])\<rparr>;
               ccall = ClarificationCall (q_question cq) response;
               clarification_result = clarification_chain orc (q_question cq) response
           in if (case clarification_result of
                    Some r \<Rightarrow> needs_clarification r \<and> clarification_question r \<noteq> None
                  | None \<Rightarrow> False)
              then Inr ((append_history
                          (AIMessage (case clarification_result of
                                        Some r \<Rightarrow> clarification_question r | None \<Rightarrow> None))
                          s1) \<lparr>awaiting_clarification := Some True\<rparr>,
                        [ccall])
              else
                (let s2 = s1\<lparr>awaiting_clarification := Some False\<rparr> in
                 case analyze_response orc s2 cq response of
                   (Inl e, acalls) \<Rightarrow> Inl (e, s2, ccall # acalls)
                 | (Inr s3, acalls) \<Rightarrow>
                   (let (s4, ncalls) = check_complete_or_advance orc s3
                    in Inr (s4, ccall # acalls @ ncalls))))))"

text \<open>
  \<open>process_response\<close>: the outermost handler catches every exception of the body and
  returns the session as it is then. \<open>Inl\<close> would be an exception leaving the function.
\<close>

definition process_response ::
  "oracles \<Rightarrow> session \<Rightarrow> string \<Rightarrow> error + (session \<times> oracle_call list)" where
  "process_response orc session response =
     (case process_response_try orc session response of
        Inl (e, s, calls) \<Rightarrow> Inr (s, calls)
      | Inr result \<Rightarrow> Inr result)"

section \<open>Starting an interview\<close>

definition SYSTEM_PROMPT :: string where
  "SYSTEM_PROMPT =
     ''You are an HR interviewer conducting a technical assessment interview. '' @ [CHR 0x0A] @
     ''Your goal is to evaluate the candidate's responses to technical questions.'' @ [CHR 0x0A] @
     ''Be professional, courteous, and thorough in your interactions.'' @ [CHR 0x0A]"

text \<open>\<open>scenario_manager.get_scenario_by_id\<close> over the loaded scenarios.\<close>

definition get_scenario_by_id :: "scenario list \<Rightarrow> string \<Rightarrow> scenario option" where
  "get_scenario_by_id scenarios i = find (\<lambda>sc. sc_id sc = Some i) scenarios"

text \<open>\<open>select_random_scenario\<close>; the random choice is the index \<open>r\<close>.\<close>

definition select_random_scenario :: "scenario list \<Rightarrow> nat \<Rightarrow> scenario option" where
  "select_random_scenario scenarios r =
     (if scenarios = [] then None else Some (scenarios ! (r mod length scenarios)))"

text \<open>
  \<open>start_interview\<close>. A loaded scenario always has the keys \<open>version\<close> and \<open>last_updated\<close>,
  so it is never an empty dictionary. A scenario without a first question raises
  \<open>ValueError\<close>.
\<close>

definition start_interview :: "scenario list \<Rightarrow> nat \<Rightarrow> string option \<Rightarrow> error + session" where
  "start_interview scenarios r scenario_id =
     (let selected =
            (case scenario_id of
               None \<Rightarrow> select_random_scenario scenarios r
             | Some i \<Rightarrow>
               (if i = [] then select_random_scenario scenarios r
                else case get_scenario_by_id scenarios i of
                       Some sc \<Rightarrow> Some sc
                     | None \<Rightarrow> select_random_scenario scenarios r))
      in case selected of
           None \<Rightarrow> Inl (ValueError ''No scenarios available to start interview'')
         | Some sc \<Rightarrow>
           (case questions sc of
              None \<Rightarrow> Inl (ValueError ''Invalid scenario format'')
            | Some [] \<Rightarrow> Inl (ValueError ''Invalid scenario format'')
            | Some (first_question # rest) \<Rightarrow>
              Inr \<lparr>scenario = Some sc,
                   current_question_index = Some 0,
                   questions_asked = Some [q_id first_question],
                   conversation_history =
                     Some [SystemMessage SYSTEM_PROMPT,
                           AIMessage (Some (''Let's begin the interview. '' @ q_question first_question))],
                   evaluation = Some [],
                   current_question = Some first_question,
                   awaiting_clarification = None,
                   interview_complete = None\<rparr>))"

section \<open>Reading the result of a turn\<close>

text \<open>
  Whether the turn ends with a clarification question: the clarification chain asks for
  a clarification of this response and gives the question to ask.
\<close>

definition clarification_requested :: "oracles \<Rightarrow> question \<Rightarrow> string \<Rightarrow> bool" where
  "clarification_requested orc cq response =
     (case clarification_chain orc (q_question cq) response of
        Some r \<Rightarrow> needs_clarification r \<and> clarification_question r \<noteq> None
      | None \<Rightarrow> False)"

text \<open>The entry that the analysis of a response stores under the id of the question.\<close>

definition stored_entry :: "oracles \<Rightarrow> question \<Rightarrow> string \<Rightarrow> evaluation_entry" where
  "stored_entry orc cq response =
     \<lparr>ev_question = q_question cq, ev_response = response,
      ev_analysis = (case analysis_chain orc (q_question cq) response of
                       Some a \<Rightarrow> analysis_dict a | None \<Rightarrow> default_analysis)\<rparr>"

text \<open>The session that a call returned; \<open>None\<close> if the call raised.\<close>

definition returned_session :: "error + (session \<times> oracle_call list) \<Rightarrow> session option" where
  "returned_session result = (case result of Inr (s, calls) \<Rightarrow> Some s | Inl e \<Rightarrow> None)"

text \<open>
  The answers that stand for the fallbacks of a failing chain: no clarification needed,
  and the scores and reasoning of the default analysis.
\<close>

definition no_clarification_needed :: clarification_response where
  "no_clarification_needed =
     \<lparr>needs_clarification = False, clarification_question = None, reasoning = []\<rparr>"

definition neutral_analysis :: response_analysis where
  "neutral_analysis =
     \<lparr>relevance_score = 5, completeness_score = 5, clarity_score = 5,
      technical_accuracy_score = 5, professional_tone_score = 5,
      analysis_reasoning = ''Analysis failed due to an error.''\<rparr>"

section \<open>Driving a session\<close>

text \<open>
  The value stored under key \<open>k\<close> in the analysis of question \<open>i\<close>; \<open>None\<close> when the
  session has no such entry or the analysis has no such key.
\<close>

definition analysis_value :: "session \<Rightarrow> string \<Rightarrow> string \<Rightarrow> pyval option" where
  "analysis_value s i k =
     (case evaluation s of
        None \<Rightarrow> None
      | Some ev \<Rightarrow> (case map_of ev i of None \<Rightarrow> None | Some e \<Rightarrow> map_of (ev_analysis e) k))"

text \<open>
  A session driven through a list of turns, each with the oracle behaviour of that
  turn: responses are submitted until the interview is complete.
\<close>

fun submit_all :: "session \<Rightarrow> (oracles \<times> string) list \<Rightarrow> session" where
  "submit_all s [] = s"
| "submit_all s ((orc, response) # turns) =
     (if interview_complete s = Some True then s
      else case process_response orc s response of
             Inr (s', calls) \<Rightarrow> submit_all s' turns
           | Inl e \<Rightarrow> s)"

text \<open>The five score fields of \<open>ResponseAnalysis\<close>.\<close>

definition score_keys :: "string list" where
  "score_keys = [''relevance_score'', ''completeness_score'', ''clarity_score'',
                 ''technical_accuracy_score'', ''professional_tone_score'']"

text \<open>The same lookup in the session that a call returned.\<close>

definition result_analysis_value ::
  "error + (session \<times> oracle_call list) \<Rightarrow> string \<Rightarrow> string \<Rightarrow> pyval option" where
  "result_analysis_value result i k =
     (case returned_session result of None \<Rightarrow> None | Some s \<Rightarrow> analysis_value s i k)"

section \<open>Storage\<close>

text \<open>
  The tables of \<open>storage.py\<close> as the list of the writes made so far, oldest first; the
  reads select from it. Writes are taken to succeed.
\<close>

record report =
  detailed_evaluations :: "(string \<times> (string \<times> pyval) list) list option"
  overall_evaluation :: "(string \<times> pyval) list option"
  final_summary :: string

datatype db_write =
    InsertSession string string
  | UpdateStatus string string
  | InsertResponse string string string
  | InsertEvaluation string string "string option" "(string \<times> pyval) list"
  | InsertReport string report

type_synonym database = "db_write list"

text \<open>\<open>get_session\<close>: the scenario id of the session row, if there is one.\<close>

fun get_session :: "database \<Rightarrow> string \<Rightarrow> string option" where
  "get_session [] i = None"
| "get_session (InsertSession s sc # db) i = (if s = i then Some sc else get_session db i)"
| "get_session (w # db) i = get_session db i"

text \<open>\<open>get_session_responses\<close>: question id and text of the stored responses, oldest first.\<close>

fun get_session_responses :: "database \<Rightarrow> string \<Rightarrow> (string \<times> string) list" where
  "get_session_responses [] i = []"
| "get_session_responses (InsertResponse s q t # db) i =
     (if s = i then (q, t) # get_session_responses db i else get_session_responses db i)"
| "get_session_responses (w # db) i = get_session_responses db i"


section \<open>Completing an interview\<close>

text \<open>
  The steps of \<open>complete_interview\<close> that call the language model or write the export
  file are parameters: \<open>run_interview\<close> yields the final summary, \<open>generate_evaluation_report\<close>
  the report, \<open>export_report\<close> the path of the written file; \<open>Inl\<close> is an exception.
\<close>

record completion_steps =
  run_interview :: "string list \<Rightarrow> error + string"
  generate_evaluation_report :: "scenario \<Rightarrow> (string \<times> string) list \<Rightarrow> string \<Rightarrow> error + report"
  export_report :: "string \<Rightarrow> report \<Rightarrow> error + string"

record session_info =
  info_session_id :: string
  info_scenario :: "string \<times> string \<times> string"
  info_current_question :: question
  info_awaiting_clarification :: bool
  info_conversation_history :: "(string \<times> string option) list"

datatype handler_result =
    ErrorResult error
  | SessionNotFound
  | SessionInfo session_info
  | Completed report string

text \<open>\<open>response_dict[resp["question_id"]] = resp["response_text"]\<close> over the responses.\<close>

definition response_dict :: "(string \<times> string) list \<Rightarrow> (string \<times> string) list" where
  "response_dict responses = foldl (\<lambda>d (q, t). AList.update q t d) [] responses"

definition evaluation_writes :: "string \<Rightarrow> report \<Rightarrow> db_write list" where
  "evaluation_writes i r =
     map (\<lambda>(q, e). InsertEvaluation i ''detailed'' (Some q) e)
         (case detailed_evaluations r of None \<Rightarrow> [] | Some ds \<Rightarrow> ds) @
     (case overall_evaluation r of None \<Rightarrow> [] | Some ov \<Rightarrow> [InsertEvaluation i ''overall'' None ov])"

text \<open>
  \<open>complete_interview\<close>: the status is set to \<open>completed\<close> first; the summary and the
  report are produced, the evaluations and the report are stored and the report is
  exported; an exception anywhere sets the status to \<open>error\<close>.
\<close>

definition complete_interview ::
  "completion_steps \<Rightarrow> database \<Rightarrow> string \<Rightarrow> scenario \<Rightarrow> (string \<times> string) list \<Rightarrow>
     handler_result \<times> database" where
  "complete_interview env db session_id sc responses =
     (let db1 = db @ [UpdateStatus session_id ''completed''] in
      case run_interview env (map snd responses) of
        Inl e \<Rightarrow> (ErrorResult e, db1 @ [UpdateStatus session_id ''error''])
      | Inr summary \<Rightarrow>
        (case generate_evaluation_report env sc (response_dict responses) summary of
           Inl e \<Rightarrow> (ErrorResult e, db1 @ [UpdateStatus session_id ''error''])
         | Inr r \<Rightarrow>
           (let db2 = db1 @ evaluation_writes session_id r @ [InsertReport session_id r] in
            case export_report env session_id r of
              Inl e \<Rightarrow> (ErrorResult e, db2 @ [UpdateStatus session_id ''error''])
            | Inr path \<Rightarrow> (Completed r path, db2))))"

section \<open>The handler\<close>

text \<open>The text of the question with a given id; empty when there is none.\<close>

definition question_text :: "question list \<Rightarrow> string \<Rightarrow> string" where
  "question_text qs i = (case find (\<lambda>q. q_id q = i) qs of Some q \<Rightarrow> q_question q | None \<Rightarrow> [])"

fun role_content :: "message \<Rightarrow> string \<times> string option" where
  "role_content (SystemMessage c) = (''system'', Some c)"
| "role_content (AIMessage c) = (''assistant'', c)"
| "role_content (HumanMessage c) = (''user'', Some c)"

text \<open>The conversation rebuilt from the stored responses.\<close>

definition rebuilt_history :: "question list \<Rightarrow> (string \<times> string) list \<Rightarrow> message list" where
  "rebuilt_history qs responses =
     SystemMessage ''You are an HR interviewer conducting a technical assessment interview.'' #
     concat (map (\<lambda>(q, t). [AIMessage (Some (question_text qs q)), HumanMessage t]) responses)"

text \<open>
  The question the handler takes as current: the first question of the scenario when
  nothing is stored, else the first one whose id has no stored response. \<open>Inl\<close>: the
  scenario has no first question.
\<close>

definition handler_current_question ::
  "question list \<Rightarrow> string list \<Rightarrow> error + question option" where
  "handler_current_question qs asked =
     (if asked = []
      then (case qs of [] \<Rightarrow> Inl IndexError | q # rest \<Rightarrow> Inr (Some q))
      else Inr (find (\<lambda>q. q_id q \<notin> set asked) qs))"

text \<open>
  \<open>process_response\<close> of \<open>handler.py\<close>. The session handed to the conversation engine is
  built anew for every call: \<open>questions_asked\<close> holds the ids of the stored responses
  and the evaluation is empty. The response is stored after the engine returns.
  An exception anywhere gives an error result; the writes made before it stay.
\<close>

definition handler_process_response ::
  "scenario list \<Rightarrow> oracles \<Rightarrow> completion_steps \<Rightarrow> database \<Rightarrow> string \<Rightarrow> string \<Rightarrow>
     handler_result \<times> database" where
  "handler_process_response scenarios orc env db session_id response =
     (case get_session db session_id of
        None \<Rightarrow> (SessionNotFound, db)
      | Some scenario_id \<Rightarrow>
        (case get_scenario_by_id scenarios scenario_id of
           None \<Rightarrow> (ErrorResult TypeError, db)
         | Some sc \<Rightarrow>
           (case questions sc of
              None \<Rightarrow> (ErrorResult (KeyError ''questions''), db)
            | Some qs \<Rightarrow>
              (let responses = get_session_responses db session_id;
                   asked = map fst responses
               in case handler_current_question qs asked of
                    Inl e \<Rightarrow> (ErrorResult e, db)
                  | Inr None \<Rightarrow> complete_interview env db session_id sc responses
                  | Inr (Some cq) \<Rightarrow>
                    (let session =
                           \<lparr>scenario = Some sc,
                            current_question_index = None,
                            questions_asked = Some asked,
                            conversation_history =
                              Some (rebuilt_history qs responses @ [AIMessage (Some (q_question cq))]),
                            evaluation = Some [],
                            current_question = Some cq,
                            awaiting_clarification = None,
                            interview_complete = None\<rparr>
                     in case process_response orc session response of
                          Inl e \<Rightarrow> (ErrorResult e, db)
                        | Inr (updated_session, calls) \<Rightarrow>
                          (let db1 = db @ [InsertResponse session_id (q_id cq) response];
                               all_responses = responses @ [(q_id cq, response)]
                           in if interview_complete updated_session = Some True
                              then complete_interview env db1 session_id sc all_responses
                              else
                                (case (sc_id sc, title sc, description sc,
                                       current_question updated_session,
                                       conversation_history updated_session) of
                                   (Some i, Some t, Some d, Some shown, Some h) \<Rightarrow>
                                     (if length qs \<le> (case questions_asked updated_session of
                                                        None \<Rightarrow> 0 | Some a \<Rightarrow> length a)
                                      then complete_interview env db1 session_id sc all_responses
                                      else
                                        (SessionInfo
                                           \<lparr>info_session_id = session_id,
                                            info_scenario = (i, t, d),
                                            info_current_question = shown,
                                            info_awaiting_clarification =
                                              (awaiting_clarification updated_session = Some True),
                                            info_conversation_history = map role_content h\<rparr>,
                                         db1))
                                 | other \<Rightarrow> (ErrorResult (KeyError ''session_info''), db1))))))))"

section \<open>Conversation stages\<close>

text \<open>
  \<open>new_scenario_manager.py\<close> keeps the traditional and the staged scenarios in two
  lists. \<open>get_scenario_by_id\<close> searches the traditional ones first.
\<close>

definition new_get_scenario_by_id :: "scenario list \<Rightarrow> scenario list \<Rightarrow> string \<Rightarrow> scenario option" where
  "new_get_scenario_by_id scenarios new_scenarios i =
     (case find (\<lambda>sc. sc_id sc = Some i) scenarios of
        Some sc \<Rightarrow> Some sc
      | None \<Rightarrow> find (\<lambda>sc. sc_id sc = Some i) new_scenarios)"

definition is_new_format_scenario :: "scenario \<Rightarrow> bool" where
  "is_new_format_scenario sc \<longleftrightarrow>
     scenario_context sc \<noteq> None \<and> customer_profile sc \<noteq> None \<and> conversation_flow sc \<noteq> None"

text \<open>The question-like dictionary returned for a stage.\<close>

record stage_question =
  sq_id :: string
  sq_stage :: string
  sq_agent_goals :: "string list"
  sq_question :: string

definition stage_question :: "string \<Rightarrow> stage_data \<Rightarrow> stage_question" where
  "stage_question name sd =
     \<lparr>sq_id = ''stage_'' @ name,
      sq_stage = name,
      sq_agent_goals = (case agent_goals sd of Some g \<Rightarrow> g | None \<Rightarrow> []),
      sq_question = ''Handle the '' @ name @ '' stage of the conversation''\<rparr>"

text \<open>\<open>stages.index(x)\<close>: the first position of \<open>x\<close>; \<open>None\<close> is the \<open>ValueError\<close>.\<close>

fun list_index :: "'a list \<Rightarrow> 'a \<Rightarrow> nat option" where
  "list_index [] x = None"
| "list_index (y # ys) x = (if y = x then Some 0 else map_option Suc (list_index ys x))"

text \<open>
  \<open>get_next_conversation_stage\<close>. The flow is a dictionary in declared order, so its
  keys are distinct; \<open>conversation_flow[name]\<close> is \<open>map_of\<close>. A loaded scenario is never
  an empty dictionary.
\<close>

definition get_next_conversation_stage ::
  "scenario list \<Rightarrow> scenario list \<Rightarrow> string \<Rightarrow> string option \<Rightarrow> stage_question option" where
  "get_next_conversation_stage scenarios new_scenarios scenario_id current_stage =
     (case new_get_scenario_by_id scenarios new_scenarios scenario_id of
        None \<Rightarrow> None
      | Some sc \<Rightarrow>
        (if \<not> is_new_format_scenario sc then None
         else case conversation_flow sc of
           None \<Rightarrow> None
         | Some flow \<Rightarrow>
           (if flow = [] then None
            else
              (let stages = map fst flow in
               case current_stage of
                 None \<Rightarrow>
                   (let first_stage = stages ! 0
                    in map_option (stage_question first_stage) (map_of flow first_stage))
               | Some cur \<Rightarrow>
                   (case list_index stages cur of
                      None \<Rightarrow> None
                    | Some current_index \<Rightarrow>
                        (if current_index + 1 < length stages
                         then (let next_stage = stages ! (current_index + 1)
                               in map_option (stage_question next_stage) (map_of flow next_stage))
                         else None))))))"

text \<open>
  Walking the flow: \<open>get_next_conversation_stage\<close> is called first with no stage and then
  with the stage it returned, until it returns nothing. The result is the list of the
  stages visited; \<open>None\<close> when the calls allowed by \<open>fuel\<close> did not reach the end.
\<close>

fun walk_stages ::
  "nat \<Rightarrow> scenario list \<Rightarrow> scenario list \<Rightarrow> string \<Rightarrow> string option \<Rightarrow> string list option" where
  "walk_stages 0 scenarios new_scenarios i cur = None"
| "walk_stages (Suc fuel) scenarios new_scenarios i cur =
     (case get_next_conversation_stage scenarios new_scenarios i cur of
        None \<Rightarrow> Some []
      | Some q \<Rightarrow>
        map_option ((#) (sq_stage q))
          (walk_stages fuel scenarios new_scenarios i (Some (sq_stage q))))"

section \<open>Summarisation\<close>

text \<open>
  The nodes of the summarisation graph of \<open>summary.py\<close>. A document is its page content.
  The chains, the token counter of the model, the chunk size of the settings and the
  document splitter of the library are parameters; \<open>Inl\<close> is an exception. The reduce chain
  is invoked with a list of documents when a group is collapsed and with the joined text
  for the final summary.
\<close>

datatype reduce_input = DocumentList "string list" | DocsText string

datatype summary_call = MapCall string | ReduceCall reduce_input

record summary_env =
  get_num_tokens :: "string \<Rightarrow> nat"
  map_chain :: "string \<Rightarrow> error + string"
  reduce_chain :: "reduce_input \<Rightarrow> error + string"
  SUMMARIZATION_CHUNK_SIZE :: nat
  split_list_of_docs :: "(string list \<Rightarrow> nat) \<Rightarrow> nat \<Rightarrow> string list \<Rightarrow> error + string list list"

definition length_function :: "summary_env \<Rightarrow> string list \<Rightarrow> nat" where
  "length_function env documents = sum_list (map (get_num_tokens env) documents)"

text \<open>The map step: one summary for every content unit; a failing unit fails the step.\<close>

fun generate_summaries :: "summary_env \<Rightarrow> string list \<Rightarrow> error + string list" where
  "generate_summaries env [] = Inr []"
| "generate_summaries env (c # cs) =
     (case map_chain env c of
        Inl e \<Rightarrow> Inl e
      | Inr s \<Rightarrow> (case generate_summaries env cs of Inl e \<Rightarrow> Inl e | Inr ss \<Rightarrow> Inr (s # ss)))"

text \<open>The loop of \<open>collapse_summaries\<close>: every group is reduced to one document.\<close>

fun collapse_groups :: "summary_env \<Rightarrow> string list list \<Rightarrow> (error + string list) \<times> summary_call list" where
  "collapse_groups env [] = (Inr [], [])"
| "collapse_groups env (g # gs) =
     (case reduce_chain env (DocumentList g) of
        Inl e \<Rightarrow> (Inl e, [ReduceCall (DocumentList g)])
      | Inr d \<Rightarrow>
        (case collapse_groups env gs of
           (Inl e, calls) \<Rightarrow> (Inl e, ReduceCall (DocumentList g) # calls)
         | (Inr ds, calls) \<Rightarrow> (Inr (d # ds), ReduceCall (DocumentList g) # calls)))"

definition collapse_summaries :: "summary_env \<Rightarrow> string list \<Rightarrow> (error + string list) \<times> summary_call list" where
  "collapse_summaries env collapsed_summaries =
     (case split_list_of_docs env (length_function env) (SUMMARIZATION_CHUNK_SIZE env)
             collapsed_summaries of
        Inl e \<Rightarrow> (Inl e, [])
      | Inr doc_lists \<Rightarrow> collapse_groups env doc_lists)"

definition should_collapse :: "summary_env \<Rightarrow> string list \<Rightarrow> bool" where
  "should_collapse env collapsed_summaries \<longleftrightarrow>
     length_function env collapsed_summaries > SUMMARIZATION_CHUNK_SIZE env"

text \<open>\<open>"\n\n".join(xs)\<close>\<close>

fun join_paragraphs :: "string list \<Rightarrow> string" where
  "join_paragraphs [] = []"
| "join_paragraphs [x] = x"
| "join_paragraphs (x # y # ys) = x @ [CHR 0x0A, CHR 0x0A] @ join_paragraphs (y # ys)"

definition generate_final_summary :: "summary_env \<Rightarrow> string list \<Rightarrow> error + string" where
  "generate_final_summary env collapsed_summaries =
     reduce_chain env (DocsText (join_paragraphs collapsed_summaries))"

text \<open>
  \<open>summarize_interview_history\<close> of \<open>tools.py\<close>. No contents raise \<open>ValueError\<close> at once.
  Otherwise the graph is built from the nodes above, and
  \<open>summarization_graph.ainvoke(..., {"recursion_limit": 10})\<close> makes a coroutine that is
  never awaited: the \<open>async for\<close> over it raises \<open>TypeError\<close>, since a coroutine is no
  asynchronous iterator. The handler of the block logs the exception and raises it again.
  So no node of the graph runs, no chain is called, and \<open>final_summary\<close> is not assigned.
  The result is the exception or the state, and the chain calls made.
\<close>

record analysis_state =
  as_contents :: "string list option"
  as_final_summary :: "string option"

definition summarize_interview_history ::
  "summary_env \<Rightarrow> analysis_state \<Rightarrow> (error + analysis_state) \<times> summary_call list" where
  "summarize_interview_history env state =
     (let interview_contents = (case as_contents state of None \<Rightarrow> [] | Some c \<Rightarrow> c) in
      if interview_contents = []
      then (Inl (ValueError ''No interview contents found for summarization.''), [])
      else (Inl TypeError, []))"

text \<open>
  The document splitter of the library: documents are packed in order into a group as
  long as the group stays within the limit; a group that a single document overfills
  raises \<open>ValueError\<close>.
\<close>

fun pack_docs ::
  "(string list \<Rightarrow> nat) \<Rightarrow> nat \<Rightarrow> string list \<Rightarrow> string list \<Rightarrow> error + string list list" where
  "pack_docs length_func token_max sub [] = Inr [sub]"
| "pack_docs length_func token_max sub (d # ds) =
     (if length_func (sub @ [d]) > token_max
      then (if sub = []
            then Inl (ValueError ''A single document was longer than the context length'')
            else (case pack_docs length_func token_max [d] ds of
                    Inl e \<Rightarrow> Inl e
                  | Inr groups \<Rightarrow> Inr (sub # groups)))
      else pack_docs length_func token_max (sub @ [d]) ds)"

definition library_split_list_of_docs ::
  "(string list \<Rightarrow> nat) \<Rightarrow> nat \<Rightarrow> string list \<Rightarrow> error + string list list" where
  "library_split_list_of_docs length_func token_max docs = pack_docs length_func token_max [] docs"

section \<open>The evaluation tools of the master agent\<close>

text \<open>
  \<open>run_evaluation_tools\<close> of \<open>master_agent.py\<close>: the transcript without the system
  messages is summarised; when the summarisation raises, the summary is a placeholder.
  Grammar check and validation run on a non-empty summary; they are parameters.
\<close>

record language_tools =
  grammar_check :: "analysis_state \<Rightarrow> error + string"
  validation_tool :: "analysis_state \<Rightarrow> error + string"

record tools_state =
  ts_final_summary :: "string option"
  ts_grammar_evaluation :: "string option"
  ts_validation_result :: "string option"

definition truthy :: "string option \<Rightarrow> bool" where
  "truthy v \<longleftrightarrow> (case v of None \<Rightarrow> False | Some s \<Rightarrow> s \<noteq> [])"

definition run_evaluation_tools ::
  "summary_env \<Rightarrow> language_tools \<Rightarrow> message list \<Rightarrow> tools_state \<Rightarrow> tools_state" where
  "run_evaluation_tools env tools history state =
     (let contents = map history_line (filter (\<lambda>m. \<not> is_system m) history);
          analysis_state = \<lparr>as_contents = Some contents, as_final_summary = Some []\<rparr>;
          summarized = fst (summarize_interview_history env analysis_state);
          analysis_state' = (case summarized of Inr a \<Rightarrow> a | Inl e \<Rightarrow> analysis_state);
          state1 = state\<lparr>ts_final_summary :=
                     (case summarized of
                        Inr a \<Rightarrow> as_final_summary a
                      | Inl e \<Rightarrow> Some ''Error generating summary.'')\<rparr>;
          state2 = (if truthy (ts_final_summary state1)
                    then state1\<lparr>ts_grammar_evaluation :=
                           (case grammar_check tools analysis_state' of
                              Inr g \<Rightarrow> Some g
                            | Inl e \<Rightarrow> Some ''Error performing grammar check.'')\<rparr>
                    else state1)
      in (if truthy (ts_final_summary state2)
          then state2\<lparr>ts_validation_result :=
                 (case validation_tool tools analysis_state' of
                    Inr v \<Rightarrow> Some v
                  | Inl e \<Rightarrow> Some ''Error performing validation.'')\<rparr>
          else state2))"

section \<open>Example inputs\<close>

definition example_q1 :: question where
  "example_q1 = \<lparr>q_id = ''q1'', q_question = ''What is a list?''\<rparr>"

definition example_q2 :: question where
  "example_q2 = \<lparr>q_id = ''q2'', q_question = ''What is a dict?''\<rparr>"

definition example_q3 :: question where
  "example_q3 = \<lparr>q_id = ''q3'', q_question = ''What is a set?''\<rparr>"

definition example_scenario :: scenario where
  "example_scenario =
     \<lparr>sc_id = Some ''s1'', title = Some ''Python'', description = Some ''Basics'',
      questions = Some [example_q1, example_q2, example_q3],
      scenario_context = None, customer_profile = None, conversation_flow = None\<rparr>"

text \<open>The session right after \<open>start_interview\<close> on the example scenario.\<close>

definition example_session :: session where
  "example_session =
     \<lparr>scenario = Some example_scenario,
      current_question_index = Some 0,
      questions_asked = Some [''q1''],
      conversation_history =
        Some [SystemMessage SYSTEM_PROMPT,
              AIMessage (Some ''Let's begin the interview. What is a list?'')],
      evaluation = Some [],
      current_question = Some example_q1,
      awaiting_clarification = None,
      interview_complete = None\<rparr>"

text \<open>An oracle whose every call raises.\<close>

definition failing_oracles :: oracles where
  "failing_oracles =
     \<lparr>clarification_chain = (\<lambda>q r. None),
      analysis_chain = (\<lambda>q r. None),
      next_question_chain = (\<lambda>t d a h. None)\<rparr>"

text \<open>An oracle whose next-question chain names a question that does not exist.\<close>

definition unknown_id_oracles :: oracles where
  "unknown_id_oracles =
     \<lparr>clarification_chain = (\<lambda>q r. None),
      analysis_chain = (\<lambda>q r. None),
      next_question_chain = (\<lambda>t d a h. Some (codes '' ID: q9, because it fits''))\<rparr>"

text \<open>An oracle whose next-question chain answers with \<open>ID:\<close> inside the identifier.\<close>

definition inner_id_oracles :: oracles where
  "inner_id_oracles =
     \<lparr>clarification_chain = (\<lambda>q r. None),
      analysis_chain = (\<lambda>q r. None),
      next_question_chain = (\<lambda>t d a h. Some (codes ''qID: 3''))\<rparr>"

text \<open>A scenario that lists the same question twice, after its only id was asked.\<close>

definition repeated_scenario :: scenario where
  "repeated_scenario = example_scenario\<lparr>questions := Some [example_q1, example_q1]\<rparr>"

definition repeated_session :: session where
  "repeated_session = example_session\<lparr>scenario := Some repeated_scenario\<rparr>"

text \<open>The example session when only one question is left: \<open>q1\<close> and \<open>q2\<close> were asked.\<close>

definition late_session :: session where
  "late_session =
     example_session\<lparr>questions_asked := Some [''q1'', ''q2''],
                      current_question := Some example_q2\<rparr>"

text \<open>Three turns in which every oracle call raises.\<close>

definition three_failing_turns :: "(oracles \<times> string) list" where
  "three_failing_turns =
     [(failing_oracles, ''first answer''), (failing_oracles, ''second answer''),
      (failing_oracles, ''third answer'')]"

text \<open>A stored session on the example scenario, a report, and completion steps that work or fail.\<close>

definition example_db :: database where
  "example_db = [InsertSession ''sess'' ''s1'']"

definition example_report :: report where
  "example_report =
     \<lparr>detailed_evaluations = Some [(''q1'', [(''relevance_score'', PyInt 7)])],
      overall_evaluation = Some [(''overall_score'', PyInt 7)],
      final_summary = ''summary''\<rparr>"

definition working_steps :: completion_steps where
  "working_steps =
     \<lparr>run_interview = (\<lambda>rs. Inr ''summary''),
      generate_evaluation_report = (\<lambda>sc d s. Inr example_report),
      export_report = (\<lambda>i r. Inr ''exports/report_sess.json'')\<rparr>"


text \<open>An oracle that asks for a clarification of every response.\<close>

definition clarifying_oracles :: oracles where
  "clarifying_oracles =
     failing_oracles\<lparr>clarification_chain :=
        (\<lambda>q r. Some \<lparr>needs_clarification = True,
                      clarification_question = Some ''please elaborate'',
                      reasoning = ''too vague''\<rparr>)\<rparr>"

text \<open>A staged scenario with three stages.\<close>

definition staged_scenario :: scenario where
  "staged_scenario =
     \<lparr>sc_id = Some ''cs1'', title = Some ''Refund'', description = Some ''Customer asks for a refund'',
      questions = None,
      scenario_context = Some [(''product'', ''router'')],
      customer_profile = Some [(''mood'', ''upset'')],
      conversation_flow =
        Some [(''greeting'', \<lparr>agent_goals = Some [''greet the customer'']\<rparr>),
              (''diagnosis'', \<lparr>agent_goals = None\<rparr>),
              (''closing'', \<lparr>agent_goals = Some [''summarise'', ''say goodbye'']\<rparr>)]\<rparr>"

text \<open>
  A summarisation setting with the library splitter, tokens counted as characters and a
  chunk size of 3, in which every summary has two tokens; and one whose reduce chain
  answers with one token.
\<close>

definition stuck_env :: summary_env where
  "stuck_env =
     \<lparr>get_num_tokens = length,
      map_chain = (\<lambda>c. Inr ''ab''),
      reduce_chain = (\<lambda>i. Inr ''ab''),
      SUMMARIZATION_CHUNK_SIZE = 3,
      split_list_of_docs = library_split_list_of_docs\<rparr>"

definition working_env :: summary_env where
  "working_env = stuck_env\<lparr>reduce_chain := (\<lambda>i. Inr ''a'')\<rparr>"

definition working_tools :: language_tools where
  "working_tools =
     \<lparr>grammar_check = (\<lambda>a. Inr ''No grammar or spelling issues found.''),
      validation_tool = (\<lambda>a. Inr ''valid'')\<rparr>"

definition initial_tools_state :: tools_state where
  "initial_tools_state =
     \<lparr>ts_final_summary = None, ts_grammar_evaluation = None, ts_validation_result = None\<rparr>"

section \<open>Selecting the next question: properties\<close>

lemma filter_head_find: "filter P xs = y # ys \<Longrightarrow> find P xs = Some y"
  by (induction xs) (auto split: if_splits)

lemma find_question_None:
  "find_question i qs = None \<longleftrightarrow> i \<notin> set (map (\<lambda>x. codes (q_id x)) qs)"
  by (induction qs) auto

lemma find_question_Some: "find_question i qs = Some q \<Longrightarrow> q \<in> set qs \<and> codes (q_id q) = i"
  by (induction qs) (auto split: if_splits)

lemma present_not_empty: "scenario s = Some sc \<Longrightarrow> \<not> session_is_empty s"
  by (simp add: session_is_empty_def)

lemma clean_inner_id: "clean_question_id (codes ''qID: 3'') = codes ''q3''"
  by (simp add: clean_question_id_def strip_def before_comma_def py_isspace_def codes_def)

lemma stated_inner_id: "stated_question_id (codes ''qID: 3'') = codes ''qID: 3''"
  by (simp add: stated_question_id_def strip_def before_comma_def py_isspace_def codes_def)

lemma clean_example_id:
  "clean_question_id (codes '' ID: q9, because it fits'') = codes ''q9''"
  by (simp add: clean_question_id_def strip_def before_comma_def py_isspace_def codes_def)

text \<open>
  White space outside ASCII is removed as well: a no-break space (U+00A0) after the
  identifier and an em space (U+2003) before it.
\<close>

lemma clean_unicode_space: "clean_question_id ([8195] @ codes ''q3'' @ [160]) = codes ''q3''"
  by (simp add: clean_question_id_def strip_def before_comma_def py_isspace_def codes_def)

lemma example_available:
  "available_questions [example_q1, example_q2, example_q3] [''q1''] = [example_q2, example_q3]"
  by (simp add: available_questions_def example_q1_def example_q2_def example_q3_def)

text \<open>
  Claim C4 as stated fails. In the example session the questions \<open>q2\<close> and \<open>q3\<close> have not
  been asked, and the chain answers \<open>qID: 3\<close>. Without a leading \<open>ID:\<close> prefix and without
  a comma, the identifier as the claim reads it is \<open>qID: 3\<close>, the id of no available
  question, so the first available question \<open>q2\<close> would be selected. The code removes the
  \<open>ID:\<close> inside the answer as well, finds \<open>q3\<close> and selects it.
\<close>

theorem inner_prefix_selects_question:
  "available_questions [example_q1, example_q2, example_q3] [''q1''] = [example_q2, example_q3] \<and>
   next_question_chain inner_id_oracles ''Python'' ''Basics''
     (available_questions_text [example_q2, example_q3])
     (conversation_history_text
        [SystemMessage SYSTEM_PROMPT, AIMessage (Some ''Let's begin the interview. What is a list?'')])
     = Some (codes ''qID: 3'') \<and>
   stated_question_id (codes ''qID: 3'') \<notin> set (map codes [''q2'', ''q3'']) \<and>
   fst (select_next_question inner_id_oracles example_session) = Some example_q3 \<and>
   example_q3 \<noteq> example_q2"
proof -
  have sel: "fst (select_next_question inner_id_oracles example_session) = Some example_q3"
    by (simp add: select_next_question_def example_session_def example_scenario_def
        session_is_empty_def example_available next_question_call_def inner_id_oracles_def
        clean_inner_id)
       (simp add: example_q2_def example_q3_def codes_def)
  have st: "stated_question_id (codes ''qID: 3'') \<notin> set (map codes [''q2'', ''q3''])"
    unfolding stated_inner_id by (simp add: codes_def)
  have ne: "example_q3 \<noteq> example_q2"
    by (simp add: example_q2_def example_q3_def)
  show ?thesis
    using sel st ne example_available by (simp add: inner_id_oracles_def)
qed

text \<open>
  Claim C4, amended. The code cleans the answer of the next-question chain by removing
  white space at both ends, then every occurrence of \<open>ID:\<close> followed by a space, then the
  text from the first comma on, then white space at both ends again. In a session with
  more than one question not yet asked, when the identifier cleaned in this way is the id
  of no available question, \<open>select_next_question\<close> returns the first available question,
  which is the first question of the scenario, in scenario order, that has not been asked.
\<close>

theorem select_next_question_unmatched_id:
  assumes "scenario s = Some sc" and "questions_asked s = Some asked"
    and "questions sc = Some qs" and "conversation_history s = Some h"
    and "available_questions qs asked = q # q' # rest"
    and "ask_oracle_next orc (next_question_call sc (q # q' # rest) h) = Some raw"
    and "clean_question_id raw \<notin> set (map (\<lambda>x. codes (q_id x)) (q # q' # rest))"
  shows "fst (select_next_question orc s) = Some q \<and>
         find (\<lambda>x. q_id x \<notin> set asked) qs = Some q"
proof -
  have ne: "\<not> session_is_empty s"
    using assms(1) by (rule present_not_empty)
  have fq: "find_question (clean_question_id raw) (q # q' # rest) = None"
    using assms(7) find_question_None[of "clean_question_id raw" "q # q' # rest"] by blast
  have "fst (select_next_question orc s) = Some q"
    using ne assms(1-6) fq by (simp add: select_next_question_def)
  moreover have "find (\<lambda>x. q_id x \<notin> set asked) qs = Some q"
    using assms(5) unfolding available_questions_def by (rule filter_head_find)
  ultimately show ?thesis by simp
qed

theorem select_next_question_unmatched_id_witness:
  "fst (select_next_question unknown_id_oracles example_session) = Some example_q2 \<and>
   find (\<lambda>x. q_id x \<notin> set [''q1'']) [example_q1, example_q2, example_q3] = Some example_q2"
proof -
  have a: "available_questions [example_q1, example_q2, example_q3] [''q1'']
             = example_q2 # example_q3 # []"
    by (rule example_available)
  have o: "ask_oracle_next unknown_id_oracles
             (next_question_call example_scenario (example_q2 # example_q3 # [])
                [SystemMessage SYSTEM_PROMPT,
                 AIMessage (Some ''Let's begin the interview. What is a list?'')])
           = Some (codes '' ID: q9, because it fits'')"
    by (simp add: next_question_call_def unknown_id_oracles_def)
  have n: "clean_question_id (codes '' ID: q9, because it fits'')
             \<notin> set (map (\<lambda>x. codes (q_id x)) (example_q2 # example_q3 # []))"
    unfolding clean_example_id by (simp add: example_q2_def example_q3_def codes_def)
  show ?thesis
    using select_next_question_unmatched_id
            [of example_session example_scenario "[''q1'']"
                "[example_q1, example_q2, example_q3]" _ example_q2 example_q3 "[]"
                unknown_id_oracles "codes '' ID: q9, because it fits''", OF _ _ _ _ a o n]
    by (simp add: example_session_def example_scenario_def)
qed

section \<open>Processing a response: the two paths\<close>

lemma current_not_empty: "current_question s = Some cq \<Longrightarrow> \<not> session_is_empty s"
  by (simp add: session_is_empty_def)

lemma process_response_clarification:
  assumes "current_question s = Some cq" and "conversation_history s = Some h"
    and "clarification_chain orc (q_question cq) r = Some cr" and "needs_clarification cr"
    and "clarification_question cr \<noteq> None"
  shows "process_response orc s r =
           Inr (s\<lparr>conversation_history :=
                     Some (h @ [HumanMessage r, AIMessage (clarification_question cr)]),
                   awaiting_clarification := Some True\<rparr>,
                [ClarificationCall (q_question cq) r])"
  using assms current_not_empty[OF assms(1)]
  by (simp add: process_response_def process_response_try_def append_history_def)

lemma process_response_analyzed:
  assumes "current_question s = Some cq" and "conversation_history s = Some h"
    and "evaluation s = Some ev" and "\<not> clarification_requested orc cq r"
  shows "process_response orc s r =
           Inr (fst (check_complete_or_advance orc
                  (s\<lparr>conversation_history := Some (h @ [HumanMessage r]),
                     awaiting_clarification := Some False,
                     evaluation := Some (AList.update (q_id cq) (stored_entry orc cq r) ev)\<rparr>)),
                ClarificationCall (q_question cq) r # AnalysisCall (q_question cq) r #
                snd (check_complete_or_advance orc
                  (s\<lparr>conversation_history := Some (h @ [HumanMessage r]),
                     awaiting_clarification := Some False,
                     evaluation := Some (AList.update (q_id cq) (stored_entry orc cq r) ev)\<rparr>)))"
  using assms current_not_empty[OF assms(1)]
  by (simp add: process_response_def process_response_try_def analyze_response_def
      clarification_requested_def stored_entry_def Let_def split: prod.splits option.splits)

section \<open>Selection and completion inside a turn\<close>

lemma select_next_question_cases:
  assumes "scenario s = Some sc" and "questions_asked s = Some asked" and "questions sc = Some qs"
  shows "(available_questions qs asked = [] \<longrightarrow> select_next_question orc s = (None, [])) \<and>
         (\<forall>q. available_questions qs asked = [q] \<longrightarrow> select_next_question orc s = (Some q, []))"
  using assms present_not_empty[OF assms(1)]
  by (simp add: select_next_question_def)

lemma select_next_question_in_available:
  assumes "scenario s = Some sc" and "questions_asked s = Some asked" and "questions sc = Some qs"
    and "select_next_question orc s = (res, calls)"
  shows "(case res of None \<Rightarrow> available_questions qs asked = []
          | Some q \<Rightarrow> q \<in> set (available_questions qs asked))"
proof (cases "available_questions qs asked")
  case Nil
  then show ?thesis
    using assms present_not_empty[OF assms(1)] by (auto simp add: select_next_question_def)
next
  case (Cons q rest)
  note outer = Cons
  show ?thesis
  proof (cases rest)
    case Nil
    then show ?thesis
      using outer assms present_not_empty[OF assms(1)]
      by (auto simp add: select_next_question_def)
  next
    case (Cons q' rest')
    let ?L = "q # q' # rest'"
    have av: "available_questions qs asked = ?L" using outer Cons by simp
    have q_in: "q \<in> set (available_questions qs asked)" using av by simp
    show ?thesis
    proof (cases "conversation_history s")
      case None
      then have "res = Some q"
        using av assms present_not_empty[OF assms(1)] by (simp add: select_next_question_def)
      then show ?thesis using q_in by simp
    next
      case (Some h)
      note hist = Some
      show ?thesis
      proof (cases "ask_oracle_next orc (next_question_call sc ?L h)")
        case None
        then have "res = Some q"
          using hist av assms present_not_empty[OF assms(1)]
          by (simp add: select_next_question_def)
        then show ?thesis using q_in by simp
      next
        case (Some raw)
        note ans = Some
        show ?thesis
        proof (cases "find_question (clean_question_id raw) ?L")
          case None
          then have "res = Some q"
            using ans hist av assms present_not_empty[OF assms(1)]
            by (simp add: select_next_question_def del: find_question.simps)
          then show ?thesis using q_in by simp
        next
          case (Some sel)
          then have "res = Some sel"
            using ans hist av assms present_not_empty[OF assms(1)]
            by (simp add: select_next_question_def del: find_question.simps)
          moreover have "sel \<in> set ?L" using find_question_Some[OF Some] by simp
          ultimately show ?thesis using av by simp
        qed
      qed
    qed
  qed
qed

lemma select_next_question_oracle_fails:
  assumes "scenario s = Some sc" and "questions_asked s = Some asked" and "questions sc = Some qs"
    and "conversation_history s = Some h"
    and "available_questions qs asked = q # q' # rest"
    and "ask_oracle_next orc (next_question_call sc (q # q' # rest) h) = None"
  shows "select_next_question orc s = (Some q, [next_question_call sc (q # q' # rest) h])"
  using assms present_not_empty[OF assms(1)]
  by (simp add: select_next_question_def)

lemma advance_asks:
  assumes "questions_asked s = Some asked" and "conversation_history s = Some h"
    and "select_next_question orc s = (Some q, calls)"
  shows "advance orc s =
           (s\<lparr>current_question := Some q, questions_asked := Some (asked @ [q_id q]),
              conversation_history := Some (h @ [AIMessage (Some (q_question q))])\<rparr>, calls)"
  using assms by (simp add: advance_def append_history_def)

lemma advance_completes:
  assumes "conversation_history s = Some h" and "select_next_question orc s = (None, calls)"
  shows "advance orc s =
           (s\<lparr>interview_complete := Some True,
              conversation_history := Some (h @ [closing_message])\<rparr>, calls)"
  using assms by (simp add: advance_def mark_complete_def append_history_def)

lemma check_complete_not_done:
  assumes "scenario s = Some sc" and "questions_asked s = Some asked" and "questions sc = Some qs"
    and "length asked < length qs"
  shows "check_complete_or_advance orc s = advance orc s"
  using assms by (simp add: check_complete_or_advance_def all_questions_asked_def)

lemma check_complete_done:
  assumes "scenario s = Some sc" and "questions_asked s = Some asked" and "questions sc = Some qs"
    and "length qs \<le> length asked" and "conversation_history s = Some h"
  shows "check_complete_or_advance orc s =
           (s\<lparr>interview_complete := Some True,
              conversation_history := Some (h @ [closing_message])\<rparr>, [])"
  using assms by (simp add: check_complete_or_advance_def all_questions_asked_def
      mark_complete_def append_history_def)

section \<open>Claim C3: the next question after an analysed turn\<close>

lemma process_response_returns: "\<exists>s' calls. process_response orc s r = Inr (s', calls)"
  by (cases "process_response_try orc s r") (auto simp add: process_response_def)

lemmas example_defs = example_session_def example_scenario_def example_q1_def example_q2_def
  example_q3_def late_session_def repeated_session_def repeated_scenario_def failing_oracles_def
  clarification_requested_def available_questions_def next_question_call_def

lemma example_first_turn:
  "process_response failing_oracles example_session ''answer'' =
     Inr (example_session
            \<lparr>conversation_history :=
               Some [SystemMessage SYSTEM_PROMPT,
                     AIMessage (Some ''Let's begin the interview. What is a list?''),
                     HumanMessage ''answer'',
                     AIMessage (Some ''What is a dict?'')],
             awaiting_clarification := Some False,
             evaluation := Some [(''q1'', \<lparr>ev_question = ''What is a list?'', ev_response = ''answer'',
                                          ev_analysis = default_analysis\<rparr>)],
             current_question := Some example_q2,
             questions_asked := Some [''q1'', ''q2'']\<rparr>,
          [ClarificationCall ''What is a list?'' ''answer'',
           AnalysisCall ''What is a list?'' ''answer'',
           next_question_call example_scenario [example_q2, example_q3]
             [SystemMessage SYSTEM_PROMPT,
              AIMessage (Some ''Let's begin the interview. What is a list?''),
              HumanMessage ''answer'']])"
  by (simp add: process_response_def process_response_try_def analyze_response_def
      check_complete_or_advance_def all_questions_asked_def advance_def
      select_next_question_def available_questions_def session_is_empty_def
      append_history_def failing_oracles_def example_session_def example_scenario_def
      example_q1_def example_q2_def example_q3_def next_question_call_def Let_def)

text \<open>
  Claim C3 as stated fails on its second half. On the example session (three questions,
  the first one asked) with an oracle whose every call raises, the turn does not
  complete the interview: the second question is asked.
\<close>

theorem oracle_failure_does_not_complete:
  "map_option interview_complete
     (returned_session (process_response failing_oracles example_session ''answer'')) = Some None \<and>
   map_option current_question
     (returned_session (process_response failing_oracles example_session ''answer''))
     = Some (Some example_q2) \<and>
   map_option questions_asked
     (returned_session (process_response failing_oracles example_session ''answer''))
     = Some (Some [''q1'', ''q2''])"
  unfolding example_first_turn returned_session_def
  by (simp add: example_session_def)

text \<open>
  Claim C3, amended. After a turn is analysed and not every question has been asked:
  when exactly one question is left it is selected and asked and the only oracle calls
  of the turn are the clarification and the analysis call; when several are left and
  the next-question chain raises, the first of them in scenario order is selected and
  asked and the interview goes on; the interview is completed, with the closing
  message appended, when no question is left.
\<close>

theorem next_question_selection:
  assumes cur: "current_question s = Some cq" and hist: "conversation_history s = Some h"
    and ev: "evaluation s = Some ev" and sc: "scenario s = Some sc"
    and asked: "questions_asked s = Some asked" and qs: "questions sc = Some qs"
    and noclar: "\<not> clarification_requested orc cq r"
    and notdone: "length asked < length qs"
    and res: "process_response orc s r = Inr (s', calls)"
  shows "(available_questions qs asked = [q] \<longrightarrow>
            current_question s' = Some q \<and> questions_asked s' = Some (asked @ [q_id q]) \<and>
            interview_complete s' = interview_complete s \<and>
            calls = [ClarificationCall (q_question cq) r, AnalysisCall (q_question cq) r]) \<and>
         (available_questions qs asked = q # q' # rest \<and>
          ask_oracle_next orc (next_question_call sc (q # q' # rest) (h @ [HumanMessage r])) = None \<longrightarrow>
            current_question s' = Some q \<and> questions_asked s' = Some (asked @ [q_id q]) \<and>
            interview_complete s' = interview_complete s \<and>
            conversation_history s' =
              Some (h @ [HumanMessage r, AIMessage (Some (q_question q))])) \<and>
         (available_questions qs asked = [] \<longrightarrow>
            interview_complete s' = Some True \<and>
            conversation_history s' = Some (h @ [HumanMessage r, closing_message]))"
proof -
  let ?s3 = "s\<lparr>conversation_history := Some (h @ [HumanMessage r]),
                awaiting_clarification := Some False,
                evaluation := Some (AList.update (q_id cq) (stored_entry orc cq r) ev)\<rparr>"
  have f: "scenario ?s3 = Some sc" "questions_asked ?s3 = Some asked"
          "conversation_history ?s3 = Some (h @ [HumanMessage r])"
    using sc asked by simp_all
  have adv: "check_complete_or_advance orc ?s3 = advance orc ?s3"
    using check_complete_not_done[OF f(1) f(2) qs notdone] .
  have r: "s' = fst (advance orc ?s3)"
          "calls = ClarificationCall (q_question cq) r # AnalysisCall (q_question cq) r #
                   snd (advance orc ?s3)"
    using res process_response_analyzed[OF cur hist ev noclar] adv by simp_all
  have one: "available_questions qs asked = [q] \<Longrightarrow>
      advance orc ?s3 = (?s3\<lparr>current_question := Some q, questions_asked := Some (asked @ [q_id q]),
         conversation_history := Some ((h @ [HumanMessage r]) @ [AIMessage (Some (q_question q))])\<rparr>, [])"
    using select_next_question_cases[OF f(1) f(2) qs, of orc] advance_asks[OF f(2) f(3)] by blast
  have many: "available_questions qs asked = q # q' # rest \<Longrightarrow>
      ask_oracle_next orc (next_question_call sc (q # q' # rest) (h @ [HumanMessage r])) = None \<Longrightarrow>
      advance orc ?s3 = (?s3\<lparr>current_question := Some q, questions_asked := Some (asked @ [q_id q]),
         conversation_history := Some ((h @ [HumanMessage r]) @ [AIMessage (Some (q_question q))])\<rparr>,
         [next_question_call sc (q # q' # rest) (h @ [HumanMessage r])])"
    using select_next_question_oracle_fails[OF f(1) f(2) qs f(3)] advance_asks[OF f(2) f(3)] by blast
  have none: "available_questions qs asked = [] \<Longrightarrow>
      advance orc ?s3 = (?s3\<lparr>interview_complete := Some True,
         conversation_history := Some ((h @ [HumanMessage r]) @ [closing_message])\<rparr>, [])"
    using select_next_question_cases[OF f(1) f(2) qs, of orc] advance_completes[OF f(3)] by blast
  show ?thesis
    using r one many none by (auto)
qed

theorem next_question_selection_witness:
  "map_option current_question
     (returned_session (process_response failing_oracles late_session ''answer''))
     = Some (Some example_q3) \<and>
   map_option current_question
     (returned_session (process_response failing_oracles example_session ''answer''))
     = Some (Some example_q2) \<and>
   map_option interview_complete
     (returned_session (process_response failing_oracles repeated_session ''answer''))
     = Some (Some True)"
proof -
  obtain s1 c1 where r1: "process_response failing_oracles late_session ''answer'' = Inr (s1, c1)"
    using process_response_returns by blast
  obtain s2 c2 where r2: "process_response failing_oracles example_session ''answer'' = Inr (s2, c2)"
    using process_response_returns by blast
  obtain s3 c3 where r3: "process_response failing_oracles repeated_session ''answer'' = Inr (s3, c3)"
    using process_response_returns by blast
  have "current_question s1 = Some example_q3"
    using next_question_selection[where s = late_session and cq = example_q2
        and sc = example_scenario and asked = "[''q1'', ''q2'']"
        and qs = "[example_q1, example_q2, example_q3]" and ev = "[]"
        and q = example_q3 and q' = example_q3 and rest = "[]", OF _ _ _ _ _ _ _ _ r1]
    by (simp add: example_defs)
  moreover have "current_question s2 = Some example_q2"
    using next_question_selection[where s = example_session and cq = example_q1
        and sc = example_scenario and asked = "[''q1'']"
        and qs = "[example_q1, example_q2, example_q3]" and ev = "[]"
        and q = example_q2 and q' = example_q3 and rest = "[]", OF _ _ _ _ _ _ _ _ r2]
    by (simp add: example_defs)
  moreover have "interview_complete s3 = Some True"
    using next_question_selection[where s = repeated_session and cq = example_q1
        and sc = repeated_scenario and asked = "[''q1'']"
        and qs = "[example_q1, example_q1]" and ev = "[]"
        and q = example_q1 and q' = example_q1 and rest = "[]", OF _ _ _ _ _ _ _ _ r3]
    by (simp add: example_defs)
  ultimately show ?thesis
    by (simp add: r1 r2 r3 returned_session_def)
qed

section \<open>Claim C9: no exception leaves a turn\<close>

lemma select_next_question_chain_fails:
  assumes "scenario s = Some sc" and "questions_asked s = Some asked" and "questions sc = Some qs"
  shows "fst (select_next_question (orc\<lparr>next_question_chain := (\<lambda>t d a h. None)\<rparr>) s) =
           (case available_questions qs asked of [] \<Rightarrow> None | q # rest \<Rightarrow> Some q)"
  using assms present_not_empty[OF assms(1)]
  by (simp add: select_next_question_def next_question_call_def Let_def
      split: list.splits option.splits)

lemma ask_oracle_next_cong:
  assumes "next_question_chain o1 = next_question_chain o2"
  shows "ask_oracle_next o1 = ask_oracle_next o2"
proof
  fix c show "ask_oracle_next o1 c = ask_oracle_next o2 c"
    by (cases c) (simp_all add: assms)
qed

lemma select_next_question_cong:
  assumes "next_question_chain o1 = next_question_chain o2"
  shows "select_next_question o1 x = select_next_question o2 x"
  unfolding select_next_question_def ask_oracle_next_cong[OF assms] ..

lemma advance_cong:
  assumes "next_question_chain o1 = next_question_chain o2"
  shows "advance o1 x = advance o2 x"
  unfolding advance_def select_next_question_cong[OF assms] ..

lemma check_complete_or_advance_cong:
  assumes "next_question_chain o1 = next_question_chain o2"
  shows "check_complete_or_advance o1 x = check_complete_or_advance o2 x"
  unfolding check_complete_or_advance_def advance_cong[OF assms] ..

lemma process_response_try_cong:
  assumes "next_question_chain o1 = next_question_chain o2"
    and "\<And>cq. current_question s = Some cq \<Longrightarrow>
           (case clarification_chain o1 (q_question cq) r of
              Some c \<Rightarrow> (needs_clarification c, clarification_question c)
            | None \<Rightarrow> (False, None)) =
           (case clarification_chain o2 (q_question cq) r of
              Some c \<Rightarrow> (needs_clarification c, clarification_question c)
            | None \<Rightarrow> (False, None))"
    and "\<And>cq. current_question s = Some cq \<Longrightarrow>
           (case analysis_chain o1 (q_question cq) r of
              Some a \<Rightarrow> analysis_dict a | None \<Rightarrow> default_analysis) =
           (case analysis_chain o2 (q_question cq) r of
              Some a \<Rightarrow> analysis_dict a | None \<Rightarrow> default_analysis)"
  shows "process_response_try o1 s r = process_response_try o2 s r"
proof (cases "current_question s")
  case None
  then show ?thesis by (simp add: process_response_try_def)
next
  case (Some cq)
  note cur = Some
  show ?thesis
  proof (cases "conversation_history s")
    case None
    then show ?thesis using cur by (simp add: process_response_try_def)
  next
    case (Some h)
    have an: "\<And>x. analyze_response o1 x cq r = analyze_response o2 x cq r"
      using assms(3)[OF cur] by (simp add: analyze_response_def)
    have cl: "(case clarification_chain o1 (q_question cq) r of
                 Some c \<Rightarrow> needs_clarification c | None \<Rightarrow> False) =
              (case clarification_chain o2 (q_question cq) r of
                 Some c \<Rightarrow> needs_clarification c | None \<Rightarrow> False)"
             "(case clarification_chain o1 (q_question cq) r of
                 Some c \<Rightarrow> clarification_question c | None \<Rightarrow> None) =
              (case clarification_chain o2 (q_question cq) r of
                 Some c \<Rightarrow> clarification_question c | None \<Rightarrow> None)"
             "(case clarification_chain o1 (q_question cq) r of
                 Some c \<Rightarrow> needs_clarification c \<and> clarification_question c \<noteq> None
               | None \<Rightarrow> False) =
              (case clarification_chain o2 (q_question cq) r of
                 Some c \<Rightarrow> needs_clarification c \<and> clarification_question c \<noteq> None
               | None \<Rightarrow> False)"
      using assms(2)[OF cur] by (auto split: option.splits)
    show ?thesis
      using cur Some
      by (simp add: process_response_try_def Let_def an cl
          check_complete_or_advance_cong[OF assms(1)] split: prod.splits sum.splits)
  qed
qed

text \<open>
  Claim C9. \<open>process_response\<close> returns a session for every session dictionary, every
  response and every oracle. A clarification chain that raises has the effect of the
  answer that no clarification is needed; an analysis chain that raises has the effect
  of the default scores; and with a next-question chain that raises, the selection
  returns the first question not yet asked, or none when all were asked.
\<close>

theorem process_response_never_raises:
  "(\<exists>s' calls. process_response orc s r = Inr (s', calls)) \<and>
   process_response (orc\<lparr>clarification_chain := (\<lambda>q a. None)\<rparr>) s r =
     process_response (orc\<lparr>clarification_chain := (\<lambda>q a. Some no_clarification_needed)\<rparr>) s r \<and>
   process_response (orc\<lparr>analysis_chain := (\<lambda>q a. None)\<rparr>) s r =
     process_response (orc\<lparr>analysis_chain := (\<lambda>q a. Some neutral_analysis)\<rparr>) s r \<and>
   (scenario s = Some sc \<and> questions_asked s = Some asked \<and> questions sc = Some qs \<longrightarrow>
      fst (select_next_question (orc\<lparr>next_question_chain := (\<lambda>t d a h. None)\<rparr>) s) =
        (case available_questions qs asked of [] \<Rightarrow> None | q # rest \<Rightarrow> Some q))"
proof -
  have a: "\<exists>s' calls. process_response orc s r = Inr (s', calls)"
    by (rule process_response_returns)
  have "process_response_try (orc\<lparr>clarification_chain := (\<lambda>q a. None)\<rparr>) s r =
     process_response_try (orc\<lparr>clarification_chain := (\<lambda>q a. Some no_clarification_needed)\<rparr>) s r"
    by (rule process_response_try_cong) (simp_all add: no_clarification_needed_def)
  then have b: "process_response (orc\<lparr>clarification_chain := (\<lambda>q a. None)\<rparr>) s r =
     process_response (orc\<lparr>clarification_chain := (\<lambda>q a. Some no_clarification_needed)\<rparr>) s r"
    by (simp add: process_response_def)
  have "process_response_try (orc\<lparr>analysis_chain := (\<lambda>q a. None)\<rparr>) s r =
     process_response_try (orc\<lparr>analysis_chain := (\<lambda>q a. Some neutral_analysis)\<rparr>) s r"
    by (rule process_response_try_cong)
       (simp_all add: neutral_analysis_def analysis_dict_def default_analysis_def)
  then have c: "process_response (orc\<lparr>analysis_chain := (\<lambda>q a. None)\<rparr>) s r =
     process_response (orc\<lparr>analysis_chain := (\<lambda>q a. Some neutral_analysis)\<rparr>) s r"
    by (simp add: process_response_def)
  show ?thesis
    using a b c select_next_question_chain_fails by blast
qed

theorem process_response_never_raises_witness:
  "fst (select_next_question (failing_oracles\<lparr>next_question_chain := (\<lambda>t d a h. None)\<rparr>)
          example_session) = Some example_q2"
  using process_response_never_raises[of failing_oracles example_session "''answer''"
          example_scenario "[''q1'']" "[example_q1, example_q2, example_q3]"]
  by (simp add: example_defs)

section \<open>Claim C1: the default analysis\<close>

lemma update_values:
  "\<forall>e\<in>snd ` set al. P e \<Longrightarrow> P v \<Longrightarrow> \<forall>e\<in>snd ` set (AList.update k v al). P e"
  by (induction al) auto

lemma fst_set_update: "fst ` set (AList.update k v al) = insert k (fst ` set al)"
  by (simp add: AList.dom_update)

lemma stored_entry_default:
  "analysis_chain orc (q_question cq) r = None \<Longrightarrow>
   ev_analysis (stored_entry orc cq r) = default_analysis"
  by (simp add: stored_entry_def)

lemma available_empty_iff:
  "available_questions qs asked = [] \<longleftrightarrow> q_id ` set qs \<subseteq> set asked"
  by (auto simp add: available_questions_def filter_empty_conv)

lemma available_member:
  "q \<in> set (available_questions qs asked) \<longleftrightarrow> q \<in> set qs \<and> q_id q \<notin> set asked"
  by (simp add: available_questions_def)

lemma all_asked_when_full:
  assumes "distinct asked" and "set asked \<subseteq> q_id ` set qs" and "length qs \<le> length asked"
  shows "set asked = q_id ` set qs"
proof -
  have "card (q_id ` set qs) \<le> length qs"
    by (metis card_image_le card_length le_trans List.finite_set)
  moreover have "card (set asked) = length asked"
    using assms(1) by (simp add: distinct_card)
  ultimately have "card (q_id ` set qs) \<le> card (set asked)" using assms(3) by simp
  then show ?thesis using assms(2) by (simp add: card_seteq)
qed

lemma engine_step:
  assumes sc: "scenario s = Some sc" and qs: "questions sc = Some qs"
    and asked: "questions_asked s = Some asked" and hist: "conversation_history s = Some h"
    and ev: "evaluation s = Some ev" and cur: "current_question s = Some cq"
    and d: "distinct asked" and sub: "set asked \<subseteq> q_id ` set qs"
    and cov: "set asked - {q_id cq} \<subseteq> fst ` set ev"
    and dflt: "\<forall>e\<in>snd ` set ev. ev_analysis e = default_analysis"
    and noclar: "\<not> clarification_requested orc cq r"
    and fail: "analysis_chain orc (q_question cq) r = None"
    and res: "process_response orc s r = Inr (s', calls)"
  shows "(interview_complete s' = Some True \<and>
          (\<exists>ev'. evaluation s' = Some ev' \<and> q_id ` set qs \<subseteq> fst ` set ev' \<and>
                 (\<forall>e\<in>snd ` set ev'. ev_analysis e = default_analysis))) \<or>
         (\<not> q_id ` set qs \<subseteq> set asked \<and>
          interview_complete s' = interview_complete s \<and> scenario s' = Some sc \<and>
          (\<exists>q h' ev'. questions_asked s' = Some (asked @ [q_id q]) \<and> q_id q \<notin> set asked \<and>
                 q \<in> set qs \<and> conversation_history s' = Some h' \<and>
                 evaluation s' = Some ev' \<and> current_question s' = Some q \<and>
                 set asked \<subseteq> fst ` set ev' \<and>
                 (\<forall>e\<in>snd ` set ev'. ev_analysis e = default_analysis)))"
proof -
  let ?ev3 = "AList.update (q_id cq) (stored_entry orc cq r) ev"
  let ?s3 = "s\<lparr>conversation_history := Some (h @ [HumanMessage r]),
                awaiting_clarification := Some False,
                evaluation := Some ?ev3\<rparr>"
  have f: "scenario ?s3 = Some sc" "questions_asked ?s3 = Some asked"
          "conversation_history ?s3 = Some (h @ [HumanMessage r])"
    using sc asked by simp_all
  have keys: "set asked \<subseteq> fst ` set ?ev3"
    using cov by (auto simp add: fst_set_update)
  have vals: "\<forall>e\<in>snd ` set ?ev3. ev_analysis e = default_analysis"
    using dflt stored_entry_default[OF fail] by (rule update_values)
  have r: "s' = fst (check_complete_or_advance orc ?s3)"
    using res process_response_analyzed[OF cur hist ev noclar] by simp
  show ?thesis
  proof (cases "length qs \<le> length asked")
    case True
    have "set asked = q_id ` set qs" using all_asked_when_full[OF d sub True] .
    then have "q_id ` set qs \<subseteq> fst ` set ?ev3" using keys by simp
    moreover have "s' = ?s3\<lparr>interview_complete := Some True,
        conversation_history := Some ((h @ [HumanMessage r]) @ [closing_message])\<rparr>"
      using r check_complete_done[OF f(1) f(2) qs True f(3), of orc] by simp
    ultimately show ?thesis using vals by simp
  next
    case False
    then have adv: "s' = fst (advance orc ?s3)"
      using r check_complete_not_done[OF f(1) f(2) qs, of orc] by simp
    obtain sel c where selres: "select_next_question orc ?s3 = (sel, c)"
      by (cases "select_next_question orc ?s3") auto
    note inav = select_next_question_in_available[OF f(1) f(2) qs selres]
    show ?thesis
    proof (cases sel)
      case None
      then have "q_id ` set qs \<subseteq> set asked" using inav by (simp add: available_empty_iff)
      then have "q_id ` set qs \<subseteq> fst ` set ?ev3" using keys by blast
      moreover have "s' = ?s3\<lparr>interview_complete := Some True,
          conversation_history := Some ((h @ [HumanMessage r]) @ [closing_message])\<rparr>"
        using adv advance_completes[OF f(3), of orc c] selres None by simp
      ultimately show ?thesis using vals by simp
    next
      case (Some q)
      then have qin: "q \<in> set qs" "q_id q \<notin> set asked"
        using inav by (simp_all add: available_member)
      then have notall: "\<not> q_id ` set qs \<subseteq> set asked" by blast
      have "s' = ?s3\<lparr>current_question := Some q, questions_asked := Some (asked @ [q_id q]),
          conversation_history :=
            Some ((h @ [HumanMessage r]) @ [AIMessage (Some (q_question q))])\<rparr>"
        using adv advance_asks[OF f(2) f(3), of orc q c] selres Some by simp
      then show ?thesis using qin notall keys vals sc by simp
    qed
  qed
qed

lemma submit_all_done: "interview_complete s = Some True \<Longrightarrow> submit_all s turns = s"
  by (cases turns) auto

lemma submit_all_completes:
  assumes "\<forall>(orc, a)\<in>set turns. \<forall>q. analysis_chain orc q a = None \<and>
              \<not> (case clarification_chain orc q a of Some c \<Rightarrow> needs_clarification c | None \<Rightarrow> False)"
    and "scenario s = Some sc" and "questions sc = Some qs"
    and "questions_asked s = Some asked" and "conversation_history s = Some h"
    and "evaluation s = Some ev" and "current_question s = Some cq"
    and "distinct asked" and "set asked \<subseteq> q_id ` set qs"
    and "set asked - {q_id cq} \<subseteq> fst ` set ev"
    and "\<forall>e\<in>snd ` set ev. ev_analysis e = default_analysis"
    and "interview_complete s \<noteq> Some True"
    and "card (q_id ` set qs) < length asked + length turns"
  shows "interview_complete (submit_all s turns) = Some True \<and>
         (\<exists>ev'. evaluation (submit_all s turns) = Some ev' \<and> q_id ` set qs \<subseteq> fst ` set ev' \<and>
                (\<forall>e\<in>snd ` set ev'. ev_analysis e = default_analysis))"
  using assms
proof (induction turns arbitrary: s asked h ev cq)
  case Nil
  have "length asked = card (set asked)" using Nil.prems(8) by (simp add: distinct_card)
  also have "\<dots> \<le> card (q_id ` set qs)" using Nil.prems(9) by (simp add: card_mono)
  finally show ?case using Nil.prems(13) by simp
next
  case (Cons t turns)
  obtain orc a where t: "t = (orc, a)" by (cases t) auto
  have fail: "analysis_chain orc (q_question cq) a = None"
    and noclar: "\<not> clarification_requested orc cq a"
    using Cons.prems(1) t by (auto simp add: clarification_requested_def split: option.splits)
  obtain s' calls where res: "process_response orc s a = Inr (s', calls)"
    using process_response_returns by blast
  have unfold: "submit_all s (t # turns) = submit_all s' turns"
    using t res Cons.prems(12) by simp
  have rest: "\<forall>(orc, a)\<in>set turns. \<forall>q. analysis_chain orc q a = None \<and>
              \<not> (case clarification_chain orc q a of Some c \<Rightarrow> needs_clarification c | None \<Rightarrow> False)"
    using Cons.prems(1) by simp
  note step = engine_step[OF Cons.prems(2-7) Cons.prems(8-11) noclar fail res]
  show ?case
  proof (rule disjE[OF step])
    assume fin: "interview_complete s' = Some True \<and>
          (\<exists>ev'. evaluation s' = Some ev' \<and> q_id ` set qs \<subseteq> fst ` set ev' \<and>
                 (\<forall>e\<in>snd ` set ev'. ev_analysis e = default_analysis))"
    from fin have "submit_all s' turns = s'" by (simp add: submit_all_done)
    then show ?thesis using unfold fin by simp
  next
    assume more: "\<not> q_id ` set qs \<subseteq> set asked \<and>
          interview_complete s' = interview_complete s \<and> scenario s' = Some sc \<and>
          (\<exists>q h' ev'. questions_asked s' = Some (asked @ [q_id q]) \<and> q_id q \<notin> set asked \<and>
                 q \<in> set qs \<and> conversation_history s' = Some h' \<and>
                 evaluation s' = Some ev' \<and> current_question s' = Some q \<and>
                 set asked \<subseteq> fst ` set ev' \<and>
                 (\<forall>e\<in>snd ` set ev'. ev_analysis e = default_analysis))"
    then obtain q h' ev' where n: "questions_asked s' = Some (asked @ [q_id q])"
        "q_id q \<notin> set asked" "q \<in> set qs" "conversation_history s' = Some h'"
        "evaluation s' = Some ev'" "current_question s' = Some q"
        "set asked \<subseteq> fst ` set ev'" "\<forall>e\<in>snd ` set ev'. ev_analysis e = default_analysis"
      by blast
    have sc': "scenario s' = Some sc" and nc: "interview_complete s' \<noteq> Some True"
      using more Cons.prems(12) by simp_all
    have d': "distinct (asked @ [q_id q])" using Cons.prems(8) n(2) by simp
    have sub': "set (asked @ [q_id q]) \<subseteq> q_id ` set qs" using Cons.prems(9) n(3) by auto
    have cov': "set (asked @ [q_id q]) - {q_id q} \<subseteq> fst ` set ev'" using n(7) by auto
    have len': "card (q_id ` set qs) < length (asked @ [q_id q]) + length turns"
      using Cons.prems(13) by simp
    show ?thesis
      using Cons.IH[OF rest sc' Cons.prems(3) n(1) n(4) n(5) n(6) d' sub' cov' n(8) nc len']
        unfold by simp
  qed
qed

lemma default_analysis_values:
  "\<forall>k\<in>set score_keys. map_of default_analysis k = Some (PyInt 5)"
  "map_of default_analysis ''reasoning'' = Some (PyStr ''Analysis failed due to an error.'')"
  by (simp_all add: score_keys_def default_analysis_def)

lemma map_of_in_keys:
  "k \<in> fst ` set al \<Longrightarrow> \<exists>v. map_of al k = Some v \<and> v \<in> snd ` set al"
  by (induction al) (auto simp add: rev_image_eqI)

lemma analysis_value_default:
  assumes "evaluation s = Some ev" and "i \<in> fst ` set ev"
    and "\<forall>e\<in>snd ` set ev. ev_analysis e = default_analysis"
  shows "analysis_value s i k = map_of default_analysis k"
proof -
  obtain e where e: "map_of ev i = Some e" "e \<in> snd ` set ev"
    using map_of_in_keys[OF assms(2)] by blast
  have "ev_analysis e = default_analysis" using assms(3) e(2) by blast
  then show ?thesis using assms(1) e(1) by (simp add: analysis_value_def)
qed

lemma start_interview_session:
  assumes "start_interview scenarios rnd sid = Inr s0"
  shows "\<exists>sc q rest. scenario s0 = Some sc \<and> questions sc = Some (q # rest) \<and>
           questions_asked s0 = Some [q_id q] \<and> current_question s0 = Some q \<and>
           evaluation s0 = Some [] \<and> interview_complete s0 = None \<and>
           (\<exists>h. conversation_history s0 = Some h)"
  using assms
  by (auto simp add: start_interview_def Let_def split: option.splits list.splits if_splits)

text \<open>
  Claim C1 as stated fails: the analysis stored when the analysis chain raises has the
  five scores of \<open>ResponseAnalysis\<close> and a reasoning, and no grammar or vocabulary
  score.
\<close>

theorem fallback_has_no_grammar_score:
  "result_analysis_value (process_response failing_oracles example_session ''answer'')
     ''q1'' ''relevance_score'' = Some (PyInt 5) \<and>
   result_analysis_value (process_response failing_oracles example_session ''answer'')
     ''q1'' ''grammar_score'' = None \<and>
   result_analysis_value (process_response failing_oracles example_session ''answer'')
     ''q1'' ''vocabulary_score'' = None"
  unfolding example_first_turn returned_session_def result_analysis_value_def
  by (simp add: analysis_value_def default_analysis_def)

text \<open>
  Claim C1, amended. When the analysis chain raises on a response for which no
  clarification is requested, the turn stores under the id of the current question an
  analysis with the score 5 on the five axes relevance, completeness, clarity, technical
  accuracy and professional tone, and the reasoning \<open>Analysis failed due to an error.\<close>
  And when in every turn of a started session the analysis chain raises and no
  clarification is requested, then as many turns as the scenario has distinct question
  ids complete the interview, with such an analysis stored for every question id of
  the scenario.
\<close>

theorem analysis_fallback:
  assumes cur: "current_question s = Some cq" and hist: "conversation_history s = Some h"
    and ev: "evaluation s = Some ev"
    and noclar: "\<not> clarification_requested orc cq r"
    and fail: "analysis_chain orc (q_question cq) r = None"
    and res: "process_response orc s r = Inr (s', calls)"
    and start: "start_interview scenarios rnd sid = Inr s0"
    and sc0: "scenario s0 = Some sc" and qs: "questions sc = Some qs"
    and turns: "\<forall>(orc, a)\<in>set turns. \<forall>q. analysis_chain orc q a = None \<and>
              \<not> (case clarification_chain orc q a of Some c \<Rightarrow> needs_clarification c | None \<Rightarrow> False)"
    and enough: "card (q_id ` set qs) \<le> length turns"
  shows "(\<forall>k\<in>set score_keys. analysis_value s' (q_id cq) k = Some (PyInt 5)) \<and>
         analysis_value s' (q_id cq) ''reasoning'' = Some (PyStr ''Analysis failed due to an error.'') \<and>
         interview_complete (submit_all s0 turns) = Some True \<and>
         (\<forall>q\<in>set qs.
            (\<forall>k\<in>set score_keys. analysis_value (submit_all s0 turns) (q_id q) k = Some (PyInt 5)) \<and>
            analysis_value (submit_all s0 turns) (q_id q) ''reasoning''
              = Some (PyStr ''Analysis failed due to an error.''))"
proof -
  let ?ev3 = "AList.update (q_id cq) (stored_entry orc cq r) ev"
  let ?s3 = "s\<lparr>conversation_history := Some (h @ [HumanMessage r]),
                awaiting_clarification := Some False,
                evaluation := Some ?ev3\<rparr>"
  have keep: "\<And>x. evaluation (fst (check_complete_or_advance orc x)) = evaluation x"
    by (auto simp add: check_complete_or_advance_def advance_def mark_complete_def
        append_history_def split: option.splits bool.splits prod.splits)
  have "s' = fst (check_complete_or_advance orc ?s3)"
    using res process_response_analyzed[OF cur hist ev noclar] by simp
  then have ev': "evaluation s' = Some ?ev3" using keep[of ?s3] by simp
  have "map_of ?ev3 (q_id cq) = Some (stored_entry orc cq r)"
    by (simp add: AList.update_conv')
  then have one: "\<And>k. analysis_value s' (q_id cq) k = map_of default_analysis k"
    using ev' stored_entry_default[OF fail] by (simp add: analysis_value_def)
  obtain q rest h0 where s0: "questions sc = Some (q # rest)"
      "questions_asked s0 = Some [q_id q]" "current_question s0 = Some q"
      "evaluation s0 = Some []" "interview_complete s0 = None"
      "conversation_history s0 = Some h0"
    using start_interview_session[OF start] sc0 by auto
  have qin: "q \<in> set qs" using s0(1) qs by auto
  have fin: "interview_complete (submit_all s0 turns) = Some True \<and>
         (\<exists>ev'. evaluation (submit_all s0 turns) = Some ev' \<and> q_id ` set qs \<subseteq> fst ` set ev' \<and>
                (\<forall>e\<in>snd ` set ev'. ev_analysis e = default_analysis))"
    using submit_all_completes[OF turns sc0 qs s0(2) s0(6) s0(4) s0(3)] qin s0(5) enough
    by simp
  then obtain evf where evf: "evaluation (submit_all s0 turns) = Some evf"
      "q_id ` set qs \<subseteq> fst ` set evf" "\<forall>e\<in>snd ` set evf. ev_analysis e = default_analysis"
    by blast
  have all: "\<And>x k. x \<in> set qs \<Longrightarrow>
      analysis_value (submit_all s0 turns) (q_id x) k = map_of default_analysis k"
    using analysis_value_default[OF evf(1) _ evf(3)] evf(2) by blast
  show ?thesis
    using one all fin default_analysis_values by simp
qed

theorem analysis_fallback_witness:
  "interview_complete (submit_all example_session three_failing_turns) = Some True \<and>
   analysis_value (submit_all example_session three_failing_turns) ''q3'' ''clarity_score''
     = Some (PyInt 5) \<and>
   result_analysis_value (process_response failing_oracles example_session ''answer'')
     ''q1'' ''reasoning'' = Some (PyStr ''Analysis failed due to an error.'')"
proof -
  obtain s' calls where res: "process_response failing_oracles example_session ''answer'' = Inr (s', calls)"
    using process_response_returns by blast
  have cur: "current_question example_session = Some example_q1"
    and hist: "conversation_history example_session =
        Some [SystemMessage SYSTEM_PROMPT, AIMessage (Some ''Let's begin the interview. What is a list?'')]"
    and ev: "evaluation example_session = Some []"
    and sc0: "scenario example_session = Some example_scenario"
    by (simp_all add: example_session_def)
  have qs: "questions example_scenario = Some [example_q1, example_q2, example_q3]"
    by (simp add: example_scenario_def)
  have noclar: "\<not> clarification_requested failing_oracles example_q1 ''answer''"
    by (simp add: clarification_requested_def failing_oracles_def)
  have fail: "analysis_chain failing_oracles (q_question example_q1) ''answer'' = None"
    by (simp add: failing_oracles_def)
  have start: "start_interview [example_scenario] 0 (Some ''s1'') = Inr example_session"
    by (simp add: start_interview_def get_scenario_by_id_def example_session_def
        example_scenario_def example_q1_def)
  have turns: "\<forall>(orc, a)\<in>set three_failing_turns. \<forall>q. analysis_chain orc q a = None \<and>
              \<not> (case clarification_chain orc q a of Some c \<Rightarrow> needs_clarification c | None \<Rightarrow> False)"
    by (simp add: three_failing_turns_def failing_oracles_def)
  have enough: "card (q_id ` set [example_q1, example_q2, example_q3]) \<le> length three_failing_turns"
    by (simp add: three_failing_turns_def example_q1_def example_q2_def example_q3_def)
  note w = analysis_fallback[OF cur hist ev noclar fail res start sc0 qs turns enough]
  have "analysis_value s' (q_id example_q1) ''reasoning'' = Some (PyStr ''Analysis failed due to an error.'')"
    using w by blast
  then have a: "result_analysis_value (process_response failing_oracles example_session ''answer'')
     ''q1'' ''reasoning'' = Some (PyStr ''Analysis failed due to an error.'')"
    by (simp add: res result_analysis_value_def returned_session_def example_q1_def)
  have "\<forall>k\<in>set score_keys. analysis_value (submit_all example_session three_failing_turns)
           (q_id example_q3) k = Some (PyInt 5)"
    using w by simp
  then have b: "analysis_value (submit_all example_session three_failing_turns) ''q3'' ''clarity_score''
     = Some (PyInt 5)"
    by (simp add: score_keys_def example_q3_def)
  show ?thesis using w a b by blast
qed

section \<open>Claim C8: the status of a session\<close>





section \<open>Claims C2 and C6: the handler around a turn\<close>

lemmas handler_defs = handler_process_response_def handler_current_question_def
  rebuilt_history_def question_text_def get_scenario_by_id_def example_db_def

lemmas engine_defs = process_response_def process_response_try_def analyze_response_def
  check_complete_or_advance_def all_questions_asked_def advance_def
  select_next_question_def available_questions_def session_is_empty_def
  append_history_def mark_complete_def next_question_call_def

text \<open>
  The responses stored for a session keep distinct question ids: the handler stores a
  response under the first question that has none, and completing an interview stores
  no response.
\<close>

lemma get_session_responses_append:
  "get_session_responses (db @ ws) i = get_session_responses db i @ get_session_responses ws i"
  by (induction db i rule: get_session_responses.induct) auto

lemma evaluation_writes_no_response: "get_session_responses (evaluation_writes i r) j = []"
proof -
  have "\<And>ds. get_session_responses (map (\<lambda>(q, e). InsertEvaluation i ''detailed'' (Some q) e) ds) j = []"
    subgoal for ds by (induction ds) auto
    done
  then show ?thesis
    by (simp add: evaluation_writes_def get_session_responses_append split: option.splits)
qed

lemma complete_interview_responses:
  "get_session_responses (snd (complete_interview env db i sc rs)) j = get_session_responses db j"
  by (simp add: complete_interview_def Let_def get_session_responses_append
      evaluation_writes_no_response split: sum.splits)

lemma handler_current_question_new:
  "handler_current_question qs asked = Inr (Some cq) \<Longrightarrow> q_id cq \<notin> set asked"
  by (auto simp add: handler_current_question_def find_Some_iff split: if_splits list.splits)

lemma handler_turns_distinct:
  assumes "distinct (map fst (get_session_responses db i))"
  shows "distinct (map fst (get_session_responses
           (snd (handler_process_response scenarios orc env db i response)) i))"
proof -
  let ?rs = "get_session_responses db i"
  have new: "\<And>qs cq. handler_current_question qs (map fst ?rs) = Inr (Some cq) \<Longrightarrow>
      distinct (map fst (get_session_responses (db @ [InsertResponse i (q_id cq) response]) i))"
    using assms handler_current_question_new by (fastforce simp add: get_session_responses_append)
  show ?thesis
    using assms new
    by (auto simp add: handler_process_response_def Let_def complete_interview_responses
        split: option.splits sum.splits prod.splits)
qed

text \<open>
  Claim C2. In the conversation engine a requested clarification leaves the question,
  the list of asked questions and the evaluation as they are, sets \<open>awaiting_clarification\<close>
  and appends the response and the clarification question (lemma
  \<open>process_response_clarification\<close>). The handler, however, stores the response as a turn
  of the current question all the same: on a new session of the example scenario a
  vague answer to the first question leaves a response row for \<open>q1\<close>, and the answer
  that follows the clarification question is stored as the response to \<open>q2\<close>.
\<close>

theorem clarification_stores_turn:
  "handler_process_response [example_scenario] clarifying_oracles working_steps example_db
     ''sess'' ''vague answer'' =
     (SessionInfo
        \<lparr>info_session_id = ''sess'',
         info_scenario = (''s1'', ''Python'', ''Basics''),
         info_current_question = example_q1,
         info_awaiting_clarification = True,
         info_conversation_history =
           [(''system'', Some ''You are an HR interviewer conducting a technical assessment interview.''),
            (''assistant'', Some ''What is a list?''),
            (''user'', Some ''vague answer''),
            (''assistant'', Some ''please elaborate'')]\<rparr>,
      [InsertSession ''sess'' ''s1'', InsertResponse ''sess'' ''q1'' ''vague answer'']) \<and>
   get_session_responses
     (snd (handler_process_response [example_scenario] failing_oracles working_steps
             [InsertSession ''sess'' ''s1'', InsertResponse ''sess'' ''q1'' ''vague answer'']
             ''sess'' ''clarified answer''))
     ''sess'' = [(''q1'', ''vague answer''), (''q2'', ''clarified answer'')]"
  by (simp add: handler_defs engine_defs clarifying_oracles_def failing_oracles_def
      example_scenario_def example_q1_def example_q2_def example_q3_def Let_def)

text \<open>
  Claim C6. The handler hands the engine the ids of the stored responses as
  \<open>questions_asked\<close>, without the id of the question being answered. On a new session of
  the example scenario, with a next-question chain that raises, the engine selects the
  first question again: it is appended to the conversation and returned as the current
  question, after its answer has been stored.
\<close>

theorem answered_question_asked_again:
  "handler_process_response [example_scenario] failing_oracles working_steps example_db
     ''sess'' ''answer'' =
     (SessionInfo
        \<lparr>info_session_id = ''sess'',
         info_scenario = (''s1'', ''Python'', ''Basics''),
         info_current_question = example_q1,
         info_awaiting_clarification = False,
         info_conversation_history =
           [(''system'', Some ''You are an HR interviewer conducting a technical assessment interview.''),
            (''assistant'', Some ''What is a list?''),
            (''user'', Some ''answer''),
            (''assistant'', Some ''What is a list?'')]\<rparr>,
      [InsertSession ''sess'' ''s1'', InsertResponse ''sess'' ''q1'' ''answer''])"
  by (simp add: handler_defs engine_defs failing_oracles_def
      example_scenario_def example_q1_def example_q2_def example_q3_def Let_def)

section \<open>Claim C5: walking the conversation flow\<close>

lemma list_index_nth: "distinct xs \<Longrightarrow> n < length xs \<Longrightarrow> list_index xs (xs ! n) = Some n"
proof (induction xs arbitrary: n)
  case Nil
  then show ?case by simp
next
  case (Cons y ys)
  show ?case
  proof (cases n)
    case 0
    then show ?thesis by simp
  next
    case (Suc m)
    then have "ys ! m \<in> set ys" using Cons.prems(2) by simp
    then have "y \<noteq> ys ! m" using Cons.prems(1) by auto
    then show ?thesis using Suc Cons by simp
  qed
qed

lemma list_index_absent: "x \<notin> set xs \<Longrightarrow> list_index xs x = None"
  by (induction xs) auto

lemma map_of_nth:
  "distinct (map fst flow) \<Longrightarrow> n < length flow \<Longrightarrow> map_of flow (fst (flow ! n)) = Some (snd (flow ! n))"
  by (simp add: map_of_eq_Some_iff)

lemma next_stage_first:
  assumes "new_get_scenario_by_id scenarios new_scenarios i = Some sc"
    and "is_new_format_scenario sc" and "conversation_flow sc = Some flow"
    and "flow = (name, sd) # rest"
  shows "get_next_conversation_stage scenarios new_scenarios i None = Some (stage_question name sd)"
  using assms by (simp add: get_next_conversation_stage_def)

lemma next_stage_step:
  assumes "new_get_scenario_by_id scenarios new_scenarios i = Some sc"
    and "is_new_format_scenario sc" and "conversation_flow sc = Some flow"
    and "distinct (map fst flow)" and "n < length flow"
  shows "get_next_conversation_stage scenarios new_scenarios i (Some (fst (flow ! n))) =
           (if n + 1 < length flow
            then Some (stage_question (fst (flow ! (n + 1))) (snd (flow ! (n + 1))))
            else None)"
proof -
  obtain p rest where fl: "flow = p # rest" using assms(5) by (cases flow) auto
  have idx: "list_index (map fst flow) (fst (flow ! n)) = Some n"
    using list_index_nth[OF assms(4), of n] assms(5) by simp
  have nxt: "n + 1 < length flow \<Longrightarrow>
      map_of flow (map fst flow ! (n + 1)) = Some (snd (flow ! (n + 1)))"
    using map_of_nth[OF assms(4), of "n + 1"] by simp
  have "get_next_conversation_stage scenarios new_scenarios i (Some (fst (flow ! n))) =
      (if n + 1 < length (map fst flow)
       then map_option (stage_question (map fst flow ! (n + 1))) (map_of flow (map fst flow ! (n + 1)))
       else None)"
    using assms(1-3) idx fl
    by (simp add: get_next_conversation_stage_def Let_def del: list_index.simps map_of.simps)
  then show ?thesis using nxt by simp
qed

lemma next_stage_unknown:
  assumes "cur \<notin> fst ` set flow" and "conversation_flow sc = Some flow"
    and "new_get_scenario_by_id scenarios new_scenarios i = Some sc"
  shows "get_next_conversation_stage scenarios new_scenarios i (Some cur) = None"
proof -
  have "list_index (map fst flow) cur = None" using assms(1) by (simp add: list_index_absent)
  then show ?thesis
    using assms(2,3)
    by (simp add: get_next_conversation_stage_def Let_def)
qed

lemma walk_from:
  assumes "new_get_scenario_by_id scenarios new_scenarios i = Some sc"
    and "is_new_format_scenario sc" and "conversation_flow sc = Some flow"
    and "distinct (map fst flow)"
  shows "n < length flow \<Longrightarrow> length flow - n \<le> fuel \<Longrightarrow>
         walk_stages fuel scenarios new_scenarios i (Some (fst (flow ! n))) =
           Some (drop (n + 1) (map fst flow))"
proof (induction fuel arbitrary: n)
  case 0
  then show ?case by simp
next
  case (Suc fuel)
  note st = next_stage_step[OF assms Suc.prems(1)]
  show ?case
  proof (cases "n + 1 < length flow")
    case True
    have "walk_stages fuel scenarios new_scenarios i (Some (fst (flow ! (n + 1)))) =
            Some (drop (n + 1 + 1) (map fst flow))"
      using Suc.IH[of "n + 1"] True Suc.prems(2) by simp
    moreover have "drop (n + 1) (map fst flow) = fst (flow ! (n + 1)) # drop (n + 1 + 1) (map fst flow)"
      using True by (metis Cons_nth_drop_Suc Suc_eq_plus1 length_map nth_map)
    ultimately show ?thesis using st True by (simp add: stage_question_def)
  next
    case False
    then have "drop (n + 1) (map fst flow) = []" by simp
    then show ?thesis using st False by simp
  qed
qed

text \<open>
  Claim C5. For a staged scenario found under its id, with a flow that declares at least
  one stage: \<open>get_next_conversation_stage\<close> without a current stage returns the first
  declared stage; with a stage that has a successor it returns the stage declared right
  after it; with the last stage, or with a name that is no stage of the flow, it returns
  nothing; and the walk that starts without a stage and goes on from each returned stage
  visits the declared stages in order, each once, and ends when nothing is returned,
  after one call more than there are stages.
\<close>

theorem next_stage_walk:
  assumes lookup: "new_get_scenario_by_id scenarios new_scenarios i = Some sc"
    and staged: "is_new_format_scenario sc"
    and flow: "conversation_flow sc = Some flow"
    and keys: "distinct (map fst flow)"
    and first: "flow = (name, sd) # rest"
  shows "get_next_conversation_stage scenarios new_scenarios i None = Some (stage_question name sd) \<and>
         (\<forall>n. n + 1 < length flow \<longrightarrow>
            get_next_conversation_stage scenarios new_scenarios i (Some (fst (flow ! n))) =
              Some (stage_question (fst (flow ! (n + 1))) (snd (flow ! (n + 1))))) \<and>
         get_next_conversation_stage scenarios new_scenarios i (Some (fst (last flow))) = None \<and>
         (\<forall>cur. cur \<notin> fst ` set flow \<longrightarrow>
            get_next_conversation_stage scenarios new_scenarios i (Some cur) = None) \<and>
         (\<forall>fuel. length flow < fuel \<longrightarrow>
            walk_stages fuel scenarios new_scenarios i None = Some (map fst flow))"
proof -
  have a: "get_next_conversation_stage scenarios new_scenarios i None = Some (stage_question name sd)"
    using next_stage_first[OF lookup staged flow first] .
  have b: "\<And>n. n + 1 < length flow \<Longrightarrow>
            get_next_conversation_stage scenarios new_scenarios i (Some (fst (flow ! n))) =
              Some (stage_question (fst (flow ! (n + 1))) (snd (flow ! (n + 1))))"
    using next_stage_step[OF lookup staged flow keys] by simp
  have ne: "flow \<noteq> []" using first by simp
  have "last flow = flow ! (length flow - 1)" using ne by (simp add: last_conv_nth)
  then have c: "get_next_conversation_stage scenarios new_scenarios i (Some (fst (last flow))) = None"
    using next_stage_step[OF lookup staged flow keys, of "length flow - 1"] ne by simp
  have d: "\<And>cur. cur \<notin> fst ` set flow \<Longrightarrow>
            get_next_conversation_stage scenarios new_scenarios i (Some cur) = None"
    using next_stage_unknown[OF _ flow lookup] by simp
  have e: "\<And>fuel. length flow < fuel \<Longrightarrow>
            walk_stages fuel scenarios new_scenarios i None = Some (map fst flow)"
  proof -
    fix fuel assume l: "length flow < fuel"
    then obtain f where f: "fuel = Suc f" by (cases fuel) auto
    have "walk_stages f scenarios new_scenarios i (Some (fst (flow ! 0))) =
            Some (drop (0 + 1) (map fst flow))"
      using walk_from[OF lookup staged flow keys, of 0 f] l f ne by simp
    then show "walk_stages fuel scenarios new_scenarios i None = Some (map fst flow)"
      using a f first by (simp add: stage_question_def)
  qed
  show ?thesis using a b c d e by blast
qed

theorem next_stage_walk_witness:
  "get_next_conversation_stage [example_scenario] [staged_scenario] ''cs1'' None =
     Some (stage_question ''greeting'' \<lparr>agent_goals = Some [''greet the customer'']\<rparr>) \<and>
   get_next_conversation_stage [example_scenario] [staged_scenario] ''cs1'' (Some ''greeting'') =
     Some (stage_question ''diagnosis'' \<lparr>agent_goals = None\<rparr>) \<and>
   get_next_conversation_stage [example_scenario] [staged_scenario] ''cs1'' (Some ''closing'') = None \<and>
   get_next_conversation_stage [example_scenario] [staged_scenario] ''cs1'' (Some ''billing'') = None \<and>
   walk_stages 4 [example_scenario] [staged_scenario] ''cs1'' None =
     Some [''greeting'', ''diagnosis'', ''closing'']"
proof -
  have lookup: "new_get_scenario_by_id [example_scenario] [staged_scenario] ''cs1'' = Some staged_scenario"
    by (simp add: new_get_scenario_by_id_def example_scenario_def staged_scenario_def)
  have staged: "is_new_format_scenario staged_scenario"
    by (simp add: is_new_format_scenario_def staged_scenario_def)
  have flow: "conversation_flow staged_scenario =
      Some [(''greeting'', \<lparr>agent_goals = Some [''greet the customer'']\<rparr>),
            (''diagnosis'', \<lparr>agent_goals = None\<rparr>),
            (''closing'', \<lparr>agent_goals = Some [''summarise'', ''say goodbye'']\<rparr>)]"
    by (simp add: staged_scenario_def)
  have keys: "distinct (map fst [(''greeting'', \<lparr>agent_goals = Some [''greet the customer'']\<rparr>),
            (''diagnosis'', \<lparr>agent_goals = None\<rparr>),
            (''closing'', \<lparr>agent_goals = Some [''summarise'', ''say goodbye'']\<rparr>)])"
    by simp
  note w = next_stage_walk[OF lookup staged flow keys refl]
  have s1: "get_next_conversation_stage [example_scenario] [staged_scenario] ''cs1'' (Some ''greeting'') =
     Some (stage_question ''diagnosis'' \<lparr>agent_goals = None\<rparr>)"
    using w[THEN conjunct2, THEN conjunct1, rule_format, of 0] by simp
  have s3: "get_next_conversation_stage [example_scenario] [staged_scenario] ''cs1'' (Some ''billing'') = None"
    using w[THEN conjunct2, THEN conjunct2, THEN conjunct2, THEN conjunct1, rule_format, of "''billing''"]
    by simp
  have s4: "walk_stages 4 [example_scenario] [staged_scenario] ''cs1'' None =
     Some [''greeting'', ''diagnosis'', ''closing'']"
    using w[THEN conjunct2, THEN conjunct2, THEN conjunct2, THEN conjunct2, rule_format, of 4]
    by simp
  show ?thesis using w s1 s3 s4 by simp
qed

section \<open>Claim C7: the summarisation of a transcript\<close>

lemma summarize_interview_history_raises:
  "as_contents st = Some (c # cs) \<Longrightarrow> summarize_interview_history env st = (Inl TypeError, [])"
  by (simp add: summarize_interview_history_def)

lemma summarize_interview_history_no_summary:
  "\<exists>e. summarize_interview_history env st = (Inl e, [])"
  by (simp add: summarize_interview_history_def Let_def)

lemma run_evaluation_tools_summary:
  "ts_final_summary (run_evaluation_tools env tools history state) = Some ''Error generating summary.''"
proof -
  obtain e where "fst (summarize_interview_history env
      \<lparr>as_contents = Some (map history_line (filter (\<lambda>m. \<not> is_system m) history)),
       as_final_summary = Some []\<rparr>) = Inl e"
    using summarize_interview_history_no_summary
      [of env "\<lparr>as_contents = Some (map history_line (filter (\<lambda>m. \<not> is_system m) history)),
                as_final_summary = Some []\<rparr>"]
    by auto
  then show ?thesis
    by (simp add: run_evaluation_tools_def truthy_def Let_def)
qed

text \<open>
  Claim C7 fails on the code. The transcript of one exchange has two content units, and
  the chains of the setting always answer. \<open>summarize_interview_history\<close> raises
  \<open>TypeError\<close> without a single chain call: the summarisation graph is never run, so there
  is neither a collapse round nor a final summary, and \<open>run_evaluation_tools\<close> stores the
  placeholder \<open>Error generating summary.\<close> in place of a summary.
\<close>

theorem summarization_raises_type_error:
  "summarize_interview_history working_env
     \<lparr>as_contents = Some [''Interviewer: Let's begin the interview. What is a list?'',
                          ''Candidate: An ordered collection.''],
      as_final_summary = Some []\<rparr>
     = (Inl TypeError, []) \<and>
   ts_final_summary
     (run_evaluation_tools working_env working_tools
        [SystemMessage SYSTEM_PROMPT,
         AIMessage (Some ''Let's begin the interview. What is a list?''),
         HumanMessage ''An ordered collection.'']
        initial_tools_state)
     = Some ''Error generating summary.''"
  by (simp add: summarize_interview_history_raises run_evaluation_tools_summary)

section \<open>Claim C10: a transcript without contents\<close>

text \<open>
  Claim C10. Without contents (the key absent or the list empty)
  \<open>summarize_interview_history\<close> raises \<open>ValueError\<close> and has made no oracle call; and
  \<open>run_evaluation_tools\<close> on a conversation that has only system messages sets the final
  summary to the placeholder \<open>Error generating summary.\<close>
\<close>

theorem empty_transcript_placeholder:
  "(as_contents st = None \<or> as_contents st = Some [] \<longrightarrow>
      summarize_interview_history env st =
        (Inl (ValueError ''No interview contents found for summarization.''), [])) \<and>
   ((\<forall>m\<in>set history. is_system m) \<longrightarrow>
      ts_final_summary (run_evaluation_tools env tools history state)
        = Some ''Error generating summary.'')"
proof -
  have a: "as_contents st = None \<or> as_contents st = Some [] \<Longrightarrow>
      summarize_interview_history env st =
        (Inl (ValueError ''No interview contents found for summarization.''), [])"
    by (auto simp add: summarize_interview_history_def)
  have b: "\<forall>m\<in>set history. is_system m \<Longrightarrow>
      ts_final_summary (run_evaluation_tools env tools history state)
        = Some ''Error generating summary.''"
  proof -
    assume "\<forall>m\<in>set history. is_system m"
    then have "filter (\<lambda>m. \<not> is_system m) history = []" by (simp add: filter_empty_conv)
    then show ?thesis
      by (simp add: run_evaluation_tools_def summarize_interview_history_def truthy_def Let_def)
  qed
  show ?thesis using a b by blast
qed

theorem empty_transcript_placeholder_witness:
  "summarize_interview_history stuck_env \<lparr>as_contents = Some [], as_final_summary = None\<rparr> =
     (Inl (ValueError ''No interview contents found for summarization.''), []) \<and>
   ts_final_summary
     (run_evaluation_tools stuck_env working_tools [SystemMessage SYSTEM_PROMPT] initial_tools_state)
     = Some ''Error generating summary.''"
  using empty_transcript_placeholder[of "\<lparr>as_contents = Some [], as_final_summary = None\<rparr>" stuck_env
      "[SystemMessage SYSTEM_PROMPT]" working_tools initial_tools_state]
  by simp

end
